theory Spec2Isabelle
  imports Main
begin

section \<open>JavaScript strings\<close>

text \<open>
  A JavaScript string is modelled as a \<^typ>\<open>string\<close>, one \<^typ>\<open>char\<close> per code unit
  (code units below 256). \<open>is_space\<close> is the class \<^verbatim>\<open>\s\<close> on such code units, which
  is also what \<^verbatim>\<open>String.prototype.trim\<close> strips: tab, line feed, vertical tab, form
  feed, carriage return, space and no-break space.
\<close>

definition is_space :: "char \<Rightarrow> bool" where
  "is_space c = ((of_char c :: nat) \<in> {9, 10, 11, 12, 13, 32, 160})"

definition js_trim :: "string \<Rightarrow> string" where
  "js_trim s = rev (dropWhile is_space (rev (dropWhile is_space s)))"

text \<open>\<^verbatim>\<open>String.prototype.toLowerCase\<close> on code units below 256: the capitals A to Z
  and the capitals of Latin-1 (0xC0 to 0xDE, but for the multiplication sign 0xD7) move
  up by 32; every other code unit stays.\<close>

definition lower_char :: "char \<Rightarrow> char" where
  "lower_char c =
     (let n = (of_char c :: nat)
      in if (65 \<le> n \<and> n \<le> 90) \<or> (192 \<le> n \<and> n \<le> 222 \<and> n \<noteq> 215)
         then char_of (n + 32) else c)"

definition toLowerCase :: "string \<Rightarrow> string" where
  "toLowerCase s = map lower_char s"

text \<open>
  \<^verbatim>\<open>s.split(c)\<close> for a one-character separator: the pieces between the
  separators, so the result is never empty and \<^verbatim>\<open>''.split(' ')\<close> is \<^verbatim>\<open>['']\<close>.
\<close>

fun js_split :: "char \<Rightarrow> string \<Rightarrow> string list" where
  "js_split c [] = [[]]"
| "js_split c (x # xs) =
     (if x = c then [] # js_split c xs
      else (case js_split c xs of
              [] \<Rightarrow> [[x]]
            | w # ws \<Rightarrow> (x # w) # ws))"

text \<open>
  The pattern \<^verbatim>\<open>/^[^@\s]+@[^@\s]+\.[^@\s]+$/\<close> of authController.signup and of
  UserSchema.email. \<open>email_atom\<close> is the class \<^verbatim>\<open>[^@\s]\<close>. A match is a non-empty
  run of atoms, an \<^verbatim>\<open>@\<close>, and a run of atoms which has a dot that is neither its first
  nor its last character.
\<close>

definition email_atom :: "char \<Rightarrow> bool" where
  "email_atom c = (c \<noteq> CHR ''@'' \<and> \<not> is_space c)"

definition email_pattern :: "string \<Rightarrow> bool" where
  "email_pattern s =
     (let local = takeWhile email_atom s; rest = dropWhile email_atom s
      in local \<noteq> [] \<and>
         (case rest of
            [] \<Rightarrow> False
          | a # host \<Rightarrow> a = CHR ''@'' \<and> list_all email_atom host \<and>
                        CHR ''.'' \<in> set (butlast (tl host))))"

section \<open>JSON values and responses\<close>

text \<open>An ObjectId. A route parameter or a token payload that Mongoose cannot cast to
  an ObjectId is outside the model.\<close>

type_synonym oid = nat

text \<open>
  What \<^verbatim>\<open>res.json\<close> is given. \<open>JId\<close> is an ObjectId and \<open>JDate\<close> a Date
  (milliseconds since the epoch); both are written as strings on the wire.
\<close>

datatype json =
    JNull
  | JStr string
  | JNum int
  | JId oid
  | JDate nat
  | JArr "json list"
  | JObj "(string \<times> json) list"

text \<open>\<open>Response st (Some j)\<close> is \<^verbatim>\<open>res.status(st).json(j)\<close>; \<open>Response st None\<close> is
  \<^verbatim>\<open>res.status(st).send()\<close>.\<close>

datatype response = Response (status: nat) (body: "json option")

definition message_response :: "nat \<Rightarrow> string \<Rightarrow> response" where
  "message_response st m = Response st (Some (JObj [(''message'', JStr m)]))"

text \<open>Does an object key \<open>k\<close> occur anywhere in a JSON value?\<close>

fun has_key :: "string \<Rightarrow> json \<Rightarrow> bool" where
  "has_key k (JArr js) = (\<exists>j \<in> set js. has_key k j)"
| "has_key k (JObj kvs) = (\<exists>kv \<in> set kvs. fst kv = k \<or> has_key k (snd kv))"
| "has_key k _ = False"

text \<open>Does the key occur in what a response carries?\<close>

definition response_has_key :: "string \<Rightarrow> response \<Rightarrow> bool" where
  "response_has_key k r = (case body r of None \<Rightarrow> False | Some j \<Rightarrow> has_key k j)"

text \<open>The value of a field of an object (\<^verbatim>\<open>o[k]\<close>).\<close>

fun field :: "string \<Rightarrow> json \<Rightarrow> json option" where
  "field k (JObj kvs) = map_of kvs k"
| "field k _ = None"

text \<open>\<^verbatim>\<open>delete ret[k]\<close>.\<close>

fun delete_key :: "string \<Rightarrow> json \<Rightarrow> json" where
  "delete_key k (JObj kvs) = JObj (filter (\<lambda>kv. fst kv \<noteq> k) kvs)"
| "delete_key k j = j"

section \<open>Library collaborators: bcrypt and jsonwebtoken\<close>

text \<open>
  bcrypt is not part of the repository. It is a parameter of the model: \<open>bcrypt_hash B d s\<close>
  is \<^verbatim>\<open>bcrypt.hash(d, s)\<close> for the salt \<open>s\<close> the library draws, and \<open>bcrypt_compare B d h\<close>
  is \<^verbatim>\<open>bcrypt.compare(d, h)\<close>.
\<close>

record bcrypt =
  bcrypt_hash :: "string \<Rightarrow> string \<Rightarrow> string"
  bcrypt_compare :: "string \<Rightarrow> string \<Rightarrow> bool"

text \<open>
  The idealised contract of a password hasher: a hash verifies exactly the data it was
  made from (correctness and freedom from collisions), and no string is its own hash.
\<close>

definition ideal_bcrypt :: "bcrypt \<Rightarrow> bool" where
  "ideal_bcrypt B =
     ((\<forall>d d' s. bcrypt_compare B d (bcrypt_hash B d' s) = (d = d')) \<and>
      (\<forall>d s. bcrypt_hash B d s \<noteq> d))"

text \<open>
  jsonwebtoken: \<^verbatim>\<open>jwt.sign({ id }, secret, { expiresIn: '1h' })\<close> stamps the payload with
  \<open>iat\<close>, the clock in whole seconds, and \<open>exp = iat + 3600\<close>, and hands it to the JWS
  layer; \<^verbatim>\<open>jwt.verify\<close> refuses an empty token, has the JWS layer check the signature
  and decode the payload, then compares \<open>exp\<close> with the clock. The JWS layer (signature and text encoding) is a
  parameter: \<open>jws_sign J k p\<close> is the token text for payload \<open>p\<close> under key \<open>k\<close>, and
  \<open>jws_open J k t\<close> is the payload of \<open>t\<close> when \<open>t\<close> is well formed and signed with \<open>k\<close>.
\<close>

record payload =
  pid :: oid
  iat :: nat
  exp :: nat

record jws =
  jws_sign :: "string \<Rightarrow> payload \<Rightarrow> string"
  jws_open :: "string \<Rightarrow> string \<Rightarrow> payload option"

text \<open>The contract of the JWS layer: a token opens under the key that signed it, and its
  text (base64url and dots) is not empty and has no blank.\<close>

definition jws_ok :: "jws \<Rightarrow> bool" where
  "jws_ok J =
     ((\<forall>k p. jws_open J k (jws_sign J k p) = Some p) \<and>
      (\<forall>k p. jws_sign J k p \<noteq> []) \<and>
      (\<forall>k p. CHR '' '' \<notin> set (jws_sign J k p)))"

datatype jwt_error = TokenExpiredError | JsonWebTokenError

text \<open>\<^verbatim>\<open>process.env.JWT_SECRET\<close> is \<open>None\<close> when unset. jsonwebtoken refuses a missing
  or empty key.\<close>

definition usable_secret :: "string option \<Rightarrow> string option" where
  "usable_secret secret =
     (case secret of None \<Rightarrow> None | Some k \<Rightarrow> if k = [] then None else Some k)"

text \<open>\<open>now\<close> is \<^verbatim>\<open>Date.now()\<close>, in milliseconds. \<open>jwt_sign\<close> is \<open>None\<close> where
  \<^verbatim>\<open>jwt.sign\<close> throws (no key).\<close>

definition jwt_sign :: "jws \<Rightarrow> oid \<Rightarrow> string option \<Rightarrow> nat \<Rightarrow> string option" where
  "jwt_sign J uid secret now =
     (case usable_secret secret of
        None \<Rightarrow> None
      | Some k \<Rightarrow>
          Some (jws_sign J k \<lparr>pid = uid, iat = now div 1000, exp = now div 1000 + 3600\<rparr>))"

definition jwt_verify :: "jws \<Rightarrow> string \<Rightarrow> string option \<Rightarrow> nat \<Rightarrow> jwt_error + payload" where
  "jwt_verify J token secret now =
     (if token = [] then Inl JsonWebTokenError
      else case usable_secret secret of
        None \<Rightarrow> Inl JsonWebTokenError
      | Some k \<Rightarrow>
          (case jws_open J k token of
             None \<Rightarrow> Inl JsonWebTokenError
           | Some p \<Rightarrow> if now div 1000 \<ge> exp p then Inl TokenExpiredError else Inr p))"

section \<open>authMiddleware.verifyToken and the /goals mount\<close>

text \<open>
  The header form the gate asks for, in the words of the specification: the scheme
  \<^verbatim>\<open>Bearer\<close>, one blank, and a token with no blank in it (so exactly two parts).
\<close>

definition bearer_form :: "string \<Rightarrow> bool" where
  "bearer_form h = (take 7 h = ''Bearer '' \<and> CHR '' '' \<notin> set (drop 7 h))"

text \<open>
  The gate either answers the request itself (\<open>Respond\<close>) or calls \<^verbatim>\<open>next()\<close> with
  \<^verbatim>\<open>req.user = { id }\<close> (\<open>Continue id\<close>). \<open>authHeader\<close> is
  \<^verbatim>\<open>req.headers.authorization\<close>: \<open>None\<close> when the request has no such header.
  \<^verbatim>\<open>!authHeader\<close> holds for a missing header and for an empty one.
\<close>

datatype gate = Respond response | Continue oid

definition verifyToken :: "jws \<Rightarrow> string option \<Rightarrow> nat \<Rightarrow> string option \<Rightarrow> gate" where
  "verifyToken J secret now authHeader =
     (case authHeader of
        None \<Rightarrow> Respond (message_response 401 ''No token provided'')
      | Some h \<Rightarrow>
          if h = [] then Respond (message_response 401 ''No token provided'')
          else
            (let tokenParts = js_split CHR '' '' h in
             if length tokenParts \<noteq> 2 \<or> hd tokenParts \<noteq> ''Bearer''
             then Respond (message_response 401 ''Invalid token format'')
             else
               (case jwt_verify J (tokenParts ! 1) secret now of
                  Inl TokenExpiredError \<Rightarrow> Respond (message_response 401 ''Token expired'')
                | Inl JsonWebTokenError \<Rightarrow> Respond (message_response 401 ''Invalid token'')
                | Inr decoded \<Rightarrow> Continue (pid decoded))))"

text \<open>
  \<^verbatim>\<open>router.use('/goals', authMiddleware.verifyToken)\<close> followed by a route handler:
  the handler runs only when the gate continues, with the user id the gate bound. \<open>'s\<close> is
  the state of the store the handler may change.
\<close>

definition goals_route ::
  "jws \<Rightarrow> string option \<Rightarrow> nat \<Rightarrow> string option \<Rightarrow> (oid \<Rightarrow> 's \<Rightarrow> response \<times> 's) \<Rightarrow> 's \<Rightarrow> response \<times> 's"
where
  "goals_route J secret now authHeader handler db =
     (case verifyToken J secret now authHeader of
        Respond r \<Rightarrow> (r, db)
      | Continue uid \<Rightarrow> handler uid db)"

section \<open>Errors\<close>

text \<open>
  A ValidatorError of Mongoose, made when a validator of a path fails: the path, the
  message, the kind of the validator (\<^verbatim>\<open>required\<close>, \<^verbatim>\<open>minlength\<close>, \<^verbatim>\<open>maxlength\<close>,
  \<^verbatim>\<open>enum\<close>, \<^verbatim>\<open>regexp\<close>), the properties the validator was declared with besides its
  message and kind (\<^verbatim>\<open>minlength: 3\<close>, \<^verbatim>\<open>enumValues: [...]\<close>), and the value that was
  validated (\<open>None\<close>: \<^verbatim>\<open>undefined\<close>).
\<close>

record validator_error =
  ve_path :: string
  ve_message :: string
  ve_kind :: string
  ve_props :: "(string \<times> json) list"
  ve_value :: "json option"

text \<open>
  A thrown JavaScript error, with the properties the handlers read: \<^verbatim>\<open>name\<close>,
  \<^verbatim>\<open>message\<close> and, on a Mongoose ValidationError, \<^verbatim>\<open>errors\<close> (for each path that
  failed, the ValidatorError of the first validator that failed on it).
\<close>

record js_error =
  err_name :: string
  err_message :: string
  err_errors :: "validator_error list option"

fun join_errors :: "validator_error list \<Rightarrow> string" where
  "join_errors [] = []"
| "join_errors [e] = ve_path e @ '': '' @ ve_message e"
| "join_errors (e # es) = ve_path e @ '': '' @ ve_message e @ '', '' @ join_errors es"

definition validation_error :: "string \<Rightarrow> validator_error list \<Rightarrow> js_error" where
  "validation_error title errs =
     \<lparr>err_name = ''ValidationError'',
      err_message = title @ '': '' @ join_errors errs,
      err_errors = Some errs\<rparr>"

text \<open>
  \<^verbatim>\<open>errors: error.errors\<close> in a response: an object with one key for each path that
  failed. \<^verbatim>\<open>ValidatorError.toJSON\<close> gives \<^verbatim>\<open>name\<close>, \<^verbatim>\<open>message\<close>, \<^verbatim>\<open>properties\<close>
  (the properties of the validator with the formatted message, the path and the value;
  the validator function itself is dropped by \<^verbatim>\<open>res.json\<close>), \<^verbatim>\<open>kind\<close>, \<^verbatim>\<open>path\<close> and
  \<^verbatim>\<open>value\<close>. A key whose value is \<^verbatim>\<open>undefined\<close> is left out by \<^verbatim>\<open>res.json\<close>.
\<close>

definition value_json :: "json option \<Rightarrow> (string \<times> json) list" where
  "value_json v = (case v of None \<Rightarrow> [] | Some j \<Rightarrow> [(''value'', j)])"

definition ValidatorError_toJSON :: "validator_error \<Rightarrow> json" where
  "ValidatorError_toJSON e =
     JObj ([(''name'', JStr ''ValidatorError''),
            (''message'', JStr (ve_message e)),
            (''properties'',
               JObj ([(''message'', JStr (ve_message e)), (''type'', JStr (ve_kind e))] @
                     ve_props e @ [(''path'', JStr (ve_path e))] @ value_json (ve_value e))),
            (''kind'', JStr (ve_kind e)),
            (''path'', JStr (ve_path e))] @ value_json (ve_value e))"

definition errors_json :: "validator_error list \<Rightarrow> json" where
  "errors_json errs = JObj (map (\<lambda>e. (ve_path e, ValidatorError_toJSON e)) errs)"

definition invalid_input :: "js_error \<Rightarrow> response" where
  "invalid_input e =
     Response 400 (Some (JObj
       ((''message'', JStr ''Invalid input data'') #
        (case err_errors e of None \<Rightarrow> [] | Some errs \<Rightarrow> [(''errors'', errors_json errs)]))))"

definition server_error :: "js_error \<Rightarrow> response" where
  "server_error e =
     Response 500 (Some (JObj
       [(''message'', JStr ''Internal Server Error''), (''error'', JStr (err_message e))]))"

section \<open>models/User.js\<close>

record user =
  user_id :: oid
  username :: string
  email :: string
  password :: string
  userCreatedAt :: nat
  userUpdatedAt :: nat

text \<open>The failures of the validators a schema declares: \<^verbatim>\<open>required\<close>, the length
  bounds of a string, \<^verbatim>\<open>enum\<close> and \<^verbatim>\<open>match\<close> (a RegExp is written \<^verbatim>\<open>{}\<close> by
  \<^verbatim>\<open>res.json\<close>).\<close>

definition required_failed :: "string \<Rightarrow> string \<Rightarrow> json option \<Rightarrow> validator_error" where
  "required_failed path msg v =
     \<lparr>ve_path = path, ve_message = msg, ve_kind = ''required'', ve_props = [], ve_value = v\<rparr>"

definition minlength_failed :: "string \<Rightarrow> nat \<Rightarrow> string \<Rightarrow> string \<Rightarrow> validator_error" where
  "minlength_failed path n msg v =
     \<lparr>ve_path = path, ve_message = msg, ve_kind = ''minlength'',
      ve_props = [(''minlength'', JNum (int n))], ve_value = Some (JStr v)\<rparr>"

definition maxlength_failed :: "string \<Rightarrow> nat \<Rightarrow> string \<Rightarrow> string \<Rightarrow> validator_error" where
  "maxlength_failed path n msg v =
     \<lparr>ve_path = path, ve_message = msg, ve_kind = ''maxlength'',
      ve_props = [(''maxlength'', JNum (int n))], ve_value = Some (JStr v)\<rparr>"

definition enum_failed :: "string \<Rightarrow> string list \<Rightarrow> string \<Rightarrow> validator_error" where
  "enum_failed path vals v =
     \<lparr>ve_path = path,
      ve_message = ''`'' @ v @ ''` is not a valid enum value for path `'' @ path @ ''`.'',
      ve_kind = ''enum'', ve_props = [(''enumValues'', JArr (map JStr vals))],
      ve_value = Some (JStr v)\<rparr>"

definition match_failed :: "string \<Rightarrow> string \<Rightarrow> string \<Rightarrow> validator_error" where
  "match_failed path msg v =
     \<lparr>ve_path = path, ve_message = msg, ve_kind = ''regexp'',
      ve_props = [(''regexp'', JObj [])], ve_value = Some (JStr v)\<rparr>"

text \<open>The validators of UserSchema, path by path; on each path the first that fails.
  \<^verbatim>\<open>required\<close> comes first on its path and fails on the empty string.\<close>

definition username_errors :: "string \<Rightarrow> validator_error list" where
  "username_errors v =
     (if v = [] then [required_failed ''username'' ''Username is required.'' (Some (JStr v))]
      else if length v < 3
      then [minlength_failed ''username'' 3 ''Username must be at least 3 characters long.'' v]
      else if length v > 30
      then [maxlength_failed ''username'' 30 ''Username cannot exceed 30 characters.'' v]
      else [])"

definition email_errors :: "string \<Rightarrow> validator_error list" where
  "email_errors v =
     (if v = [] then [required_failed ''email'' ''Email is required.'' (Some (JStr v))]
      else if \<not> email_pattern v
      then [match_failed ''email'' ''Please enter a valid email address.'' v]
      else [])"

definition password_errors :: "string \<Rightarrow> validator_error list" where
  "password_errors v =
     (if v = [] then [required_failed ''password'' ''Password is required.'' (Some (JStr v))]
      else if length v < 8
      then [minlength_failed ''password'' 8 ''Password must be at least 8 characters long.'' v]
      else [])"

definition user_errors :: "user \<Rightarrow> validator_error list" where
  "user_errors u = username_errors (username u) @ email_errors (email u) @ password_errors (password u)"

text \<open>\<^verbatim>\<open>new User({ username, email, password })\<close>: the setters of the schema run
  (\<^verbatim>\<open>trim\<close> on username, \<^verbatim>\<open>lowercase\<close> on email).\<close>

definition new_User :: "oid \<Rightarrow> string \<Rightarrow> string \<Rightarrow> string \<Rightarrow> user" where
  "new_User fresh un em pw =
     \<lparr>user_id = fresh, username = js_trim un, email = toLowerCase em, password = pw,
      userCreatedAt = 0, userUpdatedAt = 0\<rparr>"

text \<open>
  \<^verbatim>\<open>newUser.save()\<close> on a new document. Mongoose validates first (validation is the
  first pre-save hook); then \<^verbatim>\<open>UserSchema.pre('save')\<close> runs: every path of a new
  document counts as modified, so the hook replaces \<^verbatim>\<open>this.password\<close> by
  \<^verbatim>\<open>bcrypt.hash(this.password, salt)\<close>; then the timestamps are set and the document
  is inserted. \<open>fault\<close> is the error the driver raises on the insert, if any; the unique
  indexes on username and email reject a duplicate.
\<close>

definition duplicate_key :: js_error where
  "duplicate_key =
     \<lparr>err_name = ''MongoServerError'', err_message = ''E11000 duplicate key error'',
      err_errors = None\<rparr>"

definition pre_save :: "bcrypt \<Rightarrow> string \<Rightarrow> user \<Rightarrow> user" where
  "pre_save B salt u = u\<lparr>password := bcrypt_hash B (password u) salt\<rparr>"

definition User_save ::
  "bcrypt \<Rightarrow> js_error option \<Rightarrow> string \<Rightarrow> nat \<Rightarrow> user list \<Rightarrow> user \<Rightarrow> js_error + (user \<times> user list)"
where
  "User_save B fault salt now us u =
     (if user_errors u \<noteq> [] then Inl (validation_error ''User validation failed'' (user_errors u))
      else
        (let u' = (pre_save B salt u)\<lparr>userCreatedAt := now, userUpdatedAt := now\<rparr> in
         case fault of
           Some e \<Rightarrow> Inl e
         | None \<Rightarrow>
             if list_ex (\<lambda>x. username x = username u' \<or> email x = email u') us
             then Inl duplicate_key
             else Inr (u', us @ [u'])))"

text \<open>\<^verbatim>\<open>User.findOne(filter)\<close>: the first document that matches. Mongoose casts the
  filter with the schema, so the setters run on the values asked for.\<close>

definition User_findOne :: "js_error option \<Rightarrow> (user \<Rightarrow> bool) \<Rightarrow> user list \<Rightarrow> js_error + user option" where
  "User_findOne fault P us = (case fault of Some e \<Rightarrow> Inl e | None \<Rightarrow> Inr (find P us))"

definition comparePassword :: "bcrypt \<Rightarrow> user \<Rightarrow> string \<Rightarrow> bool" where
  "comparePassword B u pw = bcrypt_compare B pw (password u)"

text \<open>\<^verbatim>\<open>toJSON\<close> of a User: the plain object of the document, passed through the
  transform of the schema, which deletes \<^verbatim>\<open>password\<close>.\<close>

definition User_toObject :: "user \<Rightarrow> json" where
  "User_toObject u =
     JObj [(''_id'', JId (user_id u)), (''username'', JStr (username u)),
           (''email'', JStr (email u)), (''password'', JStr (password u)),
           (''createdAt'', JDate (userCreatedAt u)), (''updatedAt'', JDate (userUpdatedAt u)),
           (''__v'', JNum 0)]"

definition User_toJSON :: "user \<Rightarrow> json" where
  "User_toJSON u = delete_key ''password'' (User_toObject u)"

section \<open>models/Goal.js\<close>

text \<open>
  A stored goal. MongoDB documents are schemaless, so a field other than the ids, the
  progress entries and the timestamps may be null (\<open>None\<close>). \<open>targetValue\<close> and the
  values of progress entries are JavaScript numbers; no claim computes with them, and
  they are carried as integers. Dates are milliseconds since the epoch.
\<close>

record goal =
  goal_id :: oid
  userId :: oid
  name :: "string option"
  description :: "string option"
  type :: "string option"
  startDate :: "nat option"
  endDate :: "nat option"
  targetValue :: "int option"
  unit :: "string option"
  progress :: "(nat \<times> int) list"
  createdAt :: nat
  updatedAt :: nat

text \<open>
  The seven fields the goal handlers take from \<^verbatim>\<open>req.body\<close>, after casting to the
  types of the schema; \<open>None\<close> is a key that is missing (\<^verbatim>\<open>undefined\<close>). A value
  that cannot be cast to its schema type is outside the model, and so is an explicit
  null (the validators treat it as they treat a missing key).
\<close>

record goal_body =
  body_name :: "string option"
  body_description :: "string option"
  body_type :: "string option"
  body_startDate :: "nat option"
  body_endDate :: "nat option"
  body_targetValue :: "int option"
  body_unit :: "string option"

definition goal_types :: "string list" where
  "goal_types = [''weight loss'', ''muscle gain'', ''endurance'', ''other'']"

text \<open>The validators of GoalSchema, path by path. \<^verbatim>\<open>required\<close> comes first on its
  path and fails on a missing value and on the empty string.\<close>

definition name_errors :: "string option \<Rightarrow> validator_error list" where
  "name_errors v =
     (case v of
        None \<Rightarrow> [required_failed ''name'' ''Goal name is required.'' None]
      | Some n \<Rightarrow>
          if n = [] then [required_failed ''name'' ''Goal name is required.'' (Some (JStr n))]
          else if length n < 3
          then [minlength_failed ''name'' 3 ''Goal name must be at least 3 characters long.'' n]
          else if length n > 50
          then [maxlength_failed ''name'' 50 ''Goal name cannot exceed 50 characters.'' n]
          else [])"

definition description_errors :: "string option \<Rightarrow> validator_error list" where
  "description_errors v =
     (case v of
        None \<Rightarrow> []
      | Some d \<Rightarrow>
          if length d > 200
          then [maxlength_failed ''description'' 200
                  ''Goal description cannot exceed 200 characters.'' d]
          else [])"

definition type_errors :: "string option \<Rightarrow> validator_error list" where
  "type_errors v =
     (case v of
        None \<Rightarrow> [required_failed ''type'' ''Goal type is required.'' None]
      | Some t \<Rightarrow>
          if t = [] then [required_failed ''type'' ''Goal type is required.'' (Some (JStr t))]
          else if t \<notin> set goal_types then [enum_failed ''type'' goal_types t]
          else [])"

definition required_errors :: "string \<Rightarrow> string \<Rightarrow> 'a option \<Rightarrow> validator_error list" where
  "required_errors path msg v =
     (case v of None \<Rightarrow> [required_failed path msg None] | Some _ \<Rightarrow> [])"

definition unit_errors :: "string option \<Rightarrow> validator_error list" where
  "unit_errors v =
     (case v of
        None \<Rightarrow> [required_failed ''unit'' ''Unit of measure is required.'' None]
      | Some u \<Rightarrow>
          if u = [] then [required_failed ''unit'' ''Unit of measure is required.'' (Some (JStr u))]
          else [])"

text \<open>The errors of the seven paths the handlers write, on the values after the setters
  (\<^verbatim>\<open>trim\<close> on name and description). \<open>userId\<close> is required too; the handlers
  always supply it.\<close>

definition goal_errors :: "goal \<Rightarrow> validator_error list" where
  "goal_errors g =
     name_errors (name g) @ description_errors (description g) @ type_errors (type g) @
     required_errors ''startDate'' ''Start date is required.'' (startDate g) @
     required_errors ''endDate'' ''End date is required.'' (endDate g) @
     required_errors ''targetValue'' ''Target value is required.'' (targetValue g) @
     unit_errors (unit g)"

text \<open>Writing the seven fields of a body into a document, through the setters. Both
  \<^verbatim>\<open>new Goal({...})\<close> and the update of \<^verbatim>\<open>findOneAndUpdate\<close> do this.\<close>

definition set_fields :: "goal_body \<Rightarrow> goal \<Rightarrow> goal" where
  "set_fields b g =
     g\<lparr>name := map_option js_trim (body_name b),
       description := map_option js_trim (body_description b),
       type := body_type b,
       startDate := body_startDate b,
       endDate := body_endDate b,
       targetValue := body_targetValue b,
       unit := body_unit b\<rparr>"

text \<open>\<^verbatim>\<open>new Goal({ userId, name, ... })\<close>: a fresh \<^verbatim>\<open>_id\<close>, the defaults of the schema
  (no description, no progress entries), then the fields given.\<close>

definition new_Goal :: "oid \<Rightarrow> oid \<Rightarrow> goal_body \<Rightarrow> goal" where
  "new_Goal fresh uid b =
     set_fields b
       \<lparr>goal_id = fresh, userId = uid, name = None, description = None, type = None,
        startDate = None, endDate = None, targetValue = None, unit = None,
        progress = [], createdAt = 0, updatedAt = 0\<rparr>"

definition Goal_validate :: "goal \<Rightarrow> js_error option" where
  "Goal_validate g =
     (if goal_errors g \<noteq> [] then Some (validation_error ''Goal validation failed'' (goal_errors g))
      else None)"

text \<open>\<^verbatim>\<open>newGoal.save()\<close>: validation, the timestamps, the insert (\<open>fault\<close>: the error of
  the driver, if any).\<close>

definition Goal_save :: "js_error option \<Rightarrow> nat \<Rightarrow> goal list \<Rightarrow> goal \<Rightarrow> js_error + (goal \<times> goal list)" where
  "Goal_save fault now gs g =
     (case Goal_validate g of
        Some e \<Rightarrow> Inl e
      | None \<Rightarrow>
          (case fault of
             Some e \<Rightarrow> Inl e
           | None \<Rightarrow> (let g' = g\<lparr>createdAt := now, updatedAt := now\<rparr> in Inr (g', gs @ [g']))))"

definition Goal_find :: "js_error option \<Rightarrow> oid \<Rightarrow> goal list \<Rightarrow> js_error + goal list" where
  "Goal_find fault uid gs =
     (case fault of Some e \<Rightarrow> Inl e | None \<Rightarrow> Inr (filter (\<lambda>g. userId g = uid) gs))"

text \<open>The store's find-and-modify: the first document matching the filter is replaced
  by its image; the result is the new document and the new collection.\<close>

fun modify_first :: "('a \<Rightarrow> bool) \<Rightarrow> ('a \<Rightarrow> 'a) \<Rightarrow> 'a list \<Rightarrow> 'a option \<times> 'a list" where
  "modify_first P f [] = (None, [])"
| "modify_first P f (x # xs) =
     (if P x then (Some (f x), f x # xs)
      else (case modify_first P f xs of (r, ys) \<Rightarrow> (r, x # ys)))"

fun delete_first :: "('a \<Rightarrow> bool) \<Rightarrow> 'a list \<Rightarrow> 'a option \<times> 'a list" where
  "delete_first P [] = (None, [])"
| "delete_first P (x # xs) =
     (if P x then (Some x, xs)
      else (case delete_first P xs of (r, ys) \<Rightarrow> (r, x # ys)))"

text \<open>
  \<^verbatim>\<open>Goal.findOneAndUpdate({ _id, userId }, { name, ... }, { new: true, runValidators: true })\<close>.
  Mongoose casts the update (the setters run), adds \<^verbatim>\<open>updatedAt\<close>, and runs the
  validators of the paths in the update on the values of the update; only then is the
  single find-and-modify command sent to the store. A key of the update whose value is
  \<^verbatim>\<open>undefined\<close> stays in the update and is validated and written as null (Mongoose 5,
  whose connection options config/db.js passes).
\<close>

definition update_errors :: "goal_body \<Rightarrow> validator_error list" where
  "update_errors b =
     name_errors (map_option js_trim (body_name b)) @
     description_errors (map_option js_trim (body_description b)) @
     type_errors (body_type b) @
     required_errors ''startDate'' ''Start date is required.'' (body_startDate b) @
     required_errors ''endDate'' ''End date is required.'' (body_endDate b) @
     required_errors ''targetValue'' ''Target value is required.'' (body_targetValue b) @
     unit_errors (body_unit b)"

definition Goal_findOneAndUpdate ::
  "js_error option \<Rightarrow> nat \<Rightarrow> oid \<Rightarrow> oid \<Rightarrow> goal_body \<Rightarrow> goal list \<Rightarrow> js_error + (goal option \<times> goal list)"
where
  "Goal_findOneAndUpdate fault now gid uid b gs =
     (if update_errors b \<noteq> [] then Inl (validation_error ''Validation failed'' (update_errors b))
      else
        (case fault of
           Some e \<Rightarrow> Inl e
         | None \<Rightarrow>
             Inr (modify_first (\<lambda>g. goal_id g = gid \<and> userId g = uid)
                    (\<lambda>g. (set_fields b g)\<lparr>updatedAt := now\<rparr>) gs)))"

definition Goal_findOneAndDelete ::
  "js_error option \<Rightarrow> oid \<Rightarrow> oid \<Rightarrow> goal list \<Rightarrow> js_error + (goal option \<times> goal list)"
where
  "Goal_findOneAndDelete fault gid uid gs =
     (case fault of
        Some e \<Rightarrow> Inl e
      | None \<Rightarrow> Inr (delete_first (\<lambda>g. goal_id g = gid \<and> userId g = uid) gs))"

text \<open>\<^verbatim>\<open>toJSON\<close> of a Goal: the plain object, passed through the transform of the schema,
  which deletes \<^verbatim>\<open>__v\<close>.\<close>

definition opt_json :: "('a \<Rightarrow> json) \<Rightarrow> 'a option \<Rightarrow> json" where
  "opt_json f v = (case v of None \<Rightarrow> JNull | Some x \<Rightarrow> f x)"

definition Goal_toObject :: "goal \<Rightarrow> json" where
  "Goal_toObject g =
     JObj [(''_id'', JId (goal_id g)), (''userId'', JId (userId g)),
           (''name'', opt_json JStr (name g)),
           (''description'', opt_json JStr (description g)),
           (''type'', opt_json JStr (type g)),
           (''startDate'', opt_json JDate (startDate g)),
           (''endDate'', opt_json JDate (endDate g)),
           (''targetValue'', opt_json JNum (targetValue g)),
           (''unit'', opt_json JStr (unit g)),
           (''progress'',
              JArr (map (\<lambda>(d, v). JObj [(''date'', JDate d), (''value'', JNum v)]) (progress g))),
           (''createdAt'', JDate (createdAt g)), (''updatedAt'', JDate (updatedAt g)),
           (''__v'', JNum 0)]"

definition Goal_toJSON :: "goal \<Rightarrow> json" where
  "Goal_toJSON g = delete_key ''__v'' (Goal_toObject g)"

section \<open>The store\<close>

text \<open>
  The two collections. Every call of a model takes the error the driver raises on that
  call (\<open>None\<close>: the call goes through), so a fault of the store layer is an input of the
  handler that makes the call. A call that fails is taken to fail before it writes;
  what the handlers answer does not depend on that.
\<close>

record db =
  users :: "user list"
  goals :: "goal list"

section \<open>controllers/authController.js\<close>

text \<open>\<^verbatim>\<open>req.body\<close> of the auth routes: \<open>None\<close> is a key that is missing or not a
  string.\<close>

record auth_body =
  body_username :: "string option"
  body_email :: "string option"
  body_password :: "string option"

definition text_of :: "string option \<Rightarrow> string" where
  "text_of v = (case v of None \<Rightarrow> [] | Some s \<Rightarrow> s)"

text \<open>\<^verbatim>\<open>!username || typeof username !== 'string' || username.trim().length < 3\<close>.\<close>

definition bad_username :: "string option \<Rightarrow> bool" where
  "bad_username v = (case v of None \<Rightarrow> True | Some s \<Rightarrow> s = [] \<or> length (js_trim s) < 3)"

definition bad_email :: "string option \<Rightarrow> bool" where
  "bad_email v = (case v of None \<Rightarrow> True | Some s \<Rightarrow> s = [] \<or> \<not> email_pattern (js_trim s))"

definition bad_password :: "string option \<Rightarrow> bool" where
  "bad_password v = (case v of None \<Rightarrow> True | Some s \<Rightarrow> s = [] \<or> length (js_trim s) < 8)"

text \<open>
  \<open>signup\<close>: \<open>faults\<close> are the driver's errors on \<^verbatim>\<open>User.findOne\<close> and on the insert of
  \<^verbatim>\<open>newUser.save()\<close>; \<open>salts\<close> are the salts bcrypt draws in \<^verbatim>\<open>bcrypt.hash(password, 10)\<close>
  and in the pre-save hook; \<open>fresh\<close> is the ObjectId of the new document.
\<close>

definition signup ::
  "bcrypt \<Rightarrow> js_error option \<times> js_error option \<Rightarrow> string \<times> string \<Rightarrow> oid \<Rightarrow> nat \<Rightarrow>
     auth_body \<Rightarrow> db \<Rightarrow> response \<times> db"
where
  "signup B faults salts fresh now b db =
     (if bad_username (body_username b)
      then (message_response 400 ''Username is required and must be at least 3 characters long'', db)
      else if bad_email (body_email b)
      then (message_response 400 ''Email is required and must be a valid email address'', db)
      else if bad_password (body_password b)
      then (message_response 400 ''Password is required and must be at least 8 characters long'', db)
      else
        (let un = text_of (body_username b); em = text_of (body_email b);
             pw = text_of (body_password b)
         in case User_findOne (fst faults)
                   (\<lambda>u. username u = js_trim un \<or> email u = toLowerCase em) (users db) of
              Inl e \<Rightarrow> (server_error e, db)
            | Inr (Some existingUser) \<Rightarrow> (message_response 409 ''User already exists'', db)
            | Inr None \<Rightarrow>
                (let hashedPassword = bcrypt_hash B pw (fst salts);
                     newUser = new_User fresh un em hashedPassword
                 in case User_save B (snd faults) (snd salts) now (users db) newUser of
                      Inl e \<Rightarrow> (server_error e, db)
                    | Inr (saved, us) \<Rightarrow>
                        (Response 201 (Some (JObj
                           [(''message'', JStr ''User created successfully''),
                            (''user'', JObj [(''id'', JId (user_id saved)),
                                             (''username'', JStr (username saved)),
                                             (''email'', JStr (email saved))])])),
                         db\<lparr>users := us\<rparr>))))"

definition no_secret :: js_error where
  "no_secret =
     \<lparr>err_name = ''Error'', err_message = ''secretOrPrivateKey must have a value'',
      err_errors = None\<rparr>"

text \<open>\<open>login\<close> reads the store and does not change it. \<open>fault\<close> is the driver's error on
  \<^verbatim>\<open>User.findOne\<close>.\<close>

definition login ::
  "bcrypt \<Rightarrow> jws \<Rightarrow> string option \<Rightarrow> js_error option \<Rightarrow> nat \<Rightarrow> auth_body \<Rightarrow> db \<Rightarrow> response"
where
  "login B J secret fault now b db =
     (if bad_username (body_username b)
      then message_response 400 ''Username is required and must be at least 3 characters long''
      else if bad_password (body_password b)
      then message_response 400 ''Password is required and must be at least 8 characters long''
      else
        (let un = text_of (body_username b); pw = text_of (body_password b)
         in case User_findOne fault (\<lambda>u. username u = js_trim un) (users db) of
              Inl e \<Rightarrow> server_error e
            | Inr None \<Rightarrow> message_response 401 ''Invalid credentials''
            | Inr (Some u) \<Rightarrow>
                if \<not> comparePassword B u pw then message_response 401 ''Invalid credentials''
                else
                  (case jwt_sign J (user_id u) secret now of
                     None \<Rightarrow> server_error no_secret
                   | Some token \<Rightarrow>
                       Response 200 (Some (JObj
                         [(''token'', JStr token),
                          (''user'', JObj [(''id'', JId (user_id u)),
                                           (''username'', JStr (username u))])])))))"

section \<open>controllers/goalController.js\<close>

text \<open>The handlers run behind the gate: \<open>uid\<close> is \<^verbatim>\<open>req.user.id\<close>, \<open>gid\<close> is
  \<^verbatim>\<open>req.params.id\<close>, \<open>b\<close> is \<^verbatim>\<open>req.body\<close>, \<open>fresh\<close> is the ObjectId of a new
  document, \<open>now\<close> is the clock, and \<open>fault\<close> is the driver's error on the one store
  call each handler makes.\<close>

definition getAllGoals :: "js_error option \<Rightarrow> oid \<Rightarrow> db \<Rightarrow> response \<times> db" where
  "getAllGoals fault uid db =
     (case Goal_find fault uid (goals db) of
        Inl e \<Rightarrow> (server_error e, db)
      | Inr gs \<Rightarrow>
          if gs = [] then (message_response 404 ''No goals found for this user'', db)
          else (Response 200 (Some (JArr (map Goal_toJSON gs))), db))"

text \<open>The \<^verbatim>\<open>catch\<close> of createGoal and updateGoal.\<close>

definition catch_goal_error :: "js_error \<Rightarrow> response" where
  "catch_goal_error e =
     (if err_name e = ''ValidationError'' then invalid_input e else server_error e)"

definition createGoal :: "js_error option \<Rightarrow> oid \<Rightarrow> nat \<Rightarrow> goal_body \<Rightarrow> oid \<Rightarrow> db \<Rightarrow> response \<times> db" where
  "createGoal fault fresh now b uid db =
     (let newGoal = new_Goal fresh uid b in
      case Goal_validate newGoal of
        Some e \<Rightarrow> (catch_goal_error e, db)
      | None \<Rightarrow>
          (case Goal_save fault now (goals db) newGoal of
             Inl e \<Rightarrow> (catch_goal_error e, db)
           | Inr (saved, gs) \<Rightarrow> (Response 201 (Some (Goal_toJSON saved)), db\<lparr>goals := gs\<rparr>)))"

definition updateGoal :: "js_error option \<Rightarrow> nat \<Rightarrow> oid \<Rightarrow> goal_body \<Rightarrow> oid \<Rightarrow> db \<Rightarrow> response \<times> db" where
  "updateGoal fault now gid b uid db =
     (case Goal_findOneAndUpdate fault now gid uid b (goals db) of
        Inl e \<Rightarrow> (catch_goal_error e, db)
      | Inr (None, gs) \<Rightarrow> (message_response 404 ''Goal not found'', db\<lparr>goals := gs\<rparr>)
      | Inr (Some updatedGoal, gs) \<Rightarrow>
          (Response 200 (Some (Goal_toJSON updatedGoal)), db\<lparr>goals := gs\<rparr>))"

definition deleteGoal :: "js_error option \<Rightarrow> oid \<Rightarrow> oid \<Rightarrow> db \<Rightarrow> response \<times> db" where
  "deleteGoal fault gid uid db =
     (case Goal_findOneAndDelete fault gid uid (goals db) of
        Inl e \<Rightarrow> (server_error e, db)
      | Inr (None, gs) \<Rightarrow> (message_response 404 ''Goal not found'', db\<lparr>goals := gs\<rparr>)
      | Inr (Some deletedGoal, gs) \<Rightarrow> (Response 204 None, db\<lparr>goals := gs\<rparr>))"

section \<open>Stand-ins for the libraries\<close>

text \<open>
  Executable instances of the two library parameters, on which the handlers can be run.
  \<open>stub_bcrypt\<close> marks its input instead of hashing it and ignores the salt.
  \<open>stub_jws\<close> writes the three claims in decimal, separated by dots, followed by a tag
  of the key.
\<close>

definition stub_bcrypt :: bcrypt where
  "stub_bcrypt =
     \<lparr>bcrypt_hash = (\<lambda>d s. CHR ''$'' # d), bcrypt_compare = (\<lambda>d h. h = CHR ''$'' # d)\<rparr>"

definition digit_char :: "nat \<Rightarrow> char" where
  "digit_char d = char_of (48 + d)"

definition digit_val :: "char \<Rightarrow> nat" where
  "digit_val c = of_char c - 48"

function dec :: "nat \<Rightarrow> string" where
  "dec n = (if n < 10 then [digit_char n] else dec (n div 10) @ [digit_char (n mod 10)])"
  by pat_completeness auto
termination
  by (relation "measure id") auto

declare dec.simps [simp del]

definition undec :: "string \<Rightarrow> nat" where
  "undec s = foldl (\<lambda>a c. 10 * a + digit_val c) 0 s"

definition stub_sign :: "string \<Rightarrow> payload \<Rightarrow> string" where
  "stub_sign k p =
     dec (pid p) @ CHR ''.'' # dec (iat p) @ CHR ''.'' # dec (exp p) @ CHR ''.'' # dec (length k)"

definition stub_open :: "string \<Rightarrow> string \<Rightarrow> payload option" where
  "stub_open k t =
     (case js_split CHR ''.'' t of
        [a, b, c, tag] \<Rightarrow>
          if tag = dec (length k) then Some \<lparr>pid = undec a, iat = undec b, exp = undec c\<rparr>
          else None
      | _ \<Rightarrow> None)"

definition stub_jws :: jws where
  "stub_jws = \<lparr>jws_sign = stub_sign, jws_open = stub_open\<rparr>"

section \<open>Example data\<close>

text \<open>A user whose stored password is what \<open>stub_bcrypt\<close> makes of \<^verbatim>\<open>password1\<close>, and
  the request body of the scenario of the specification.\<close>

definition ann :: user where
  "ann = \<lparr>user_id = 7, username = ''ann'', email = ''ann@x.com'', password = ''$password1'',
          userCreatedAt = 0, userUpdatedAt = 0\<rparr>"

definition ann_body :: auth_body where
  "ann_body = \<lparr>body_username = Some ''ann'', body_email = Some ''ann@x.com'',
               body_password = Some ''password1''\<rparr>"

text \<open>The goal of the scenario of the specification, owned by user 7, and a body that
  passes the validators of GoalSchema.\<close>

definition run_body :: goal_body where
  "run_body = \<lparr>body_name = Some ''Run 5k'', body_description = None,
                body_type = Some ''endurance'', body_startDate = Some 1000,
                body_endDate = Some 2000, body_targetValue = Some 5, body_unit = Some ''km''\<rparr>"

definition run_goal :: goal where
  "run_goal = \<lparr>goal_id = 1, userId = 7, name = Some ''Run 5k'', description = None,
                type = Some ''endurance'', startDate = Some 1000, endDate = Some 2000,
                targetValue = Some 5, unit = Some ''km'', progress = [(1500, 2)],
                createdAt = 1000, updatedAt = 1000\<rparr>"

text \<open>A fault of the store layer as the driver reports it.\<close>

definition refused :: js_error where
  "refused = \<lparr>err_name = ''MongoNetworkError'',
              err_message = ''connect ECONNREFUSED 127.0.0.1:27017'', err_errors = None\<rparr>"

section \<open>The e-mail pattern\<close>

text \<open>\<open>email_pattern\<close> accepts exactly the strings the regular expression matches: a
  non-empty run of atoms, an \<^verbatim>\<open>@\<close>, a non-empty run of atoms, a dot, a non-empty run of
  atoms.\<close>

lemma in_butlast_split:
  "x \<in> set (butlast t) \<Longrightarrow> \<exists>p q. t = p @ x # q \<and> q \<noteq> []"
proof -
  assume "x \<in> set (butlast t)"
  then obtain p r where b: "butlast t = p @ x # r" by (meson split_list)
  then have "t \<noteq> []" by auto
  then have "t = butlast t @ [last t]" by simp
  with b have "t = p @ x # (r @ [last t])" by simp
  then show ?thesis by blast
qed

lemma takeWhile_all: "list_all P (takeWhile P xs)"
  by (induction xs) auto

lemma email_pattern_iff:
  "email_pattern s \<longleftrightarrow>
     (\<exists>l x y. s = l @ CHR ''@'' # x @ CHR ''.'' # y \<and> l \<noteq> [] \<and> x \<noteq> [] \<and> y \<noteq> [] \<and>
               list_all email_atom l \<and> list_all email_atom x \<and> list_all email_atom y)"
  (is "?L \<longleftrightarrow> ?R")
proof
  assume e: ?L
  define l where "l = takeWhile email_atom s"
  define rest where "rest = dropWhile email_atom s"
  have s: "s = l @ rest" by (simp add: l_def rest_def)
  have la: "list_all email_atom l" unfolding l_def by (rule takeWhile_all)
  from e have l: "l \<noteq> []" unfolding email_pattern_def Let_def l_def by blast
  from e have c: "(case rest of [] \<Rightarrow> False
          | a # host \<Rightarrow> a = CHR ''@'' \<and> list_all email_atom host \<and>
                        CHR ''.'' \<in> set (butlast (tl host)))"
    unfolding email_pattern_def Let_def rest_def by blast
  then obtain a host where r0: "rest = a # host" by (cases rest) auto
  with c have a: "a = CHR ''@''" and h: "list_all email_atom host"
    and d: "CHR ''.'' \<in> set (butlast (tl host))" by simp_all
  from in_butlast_split[OF d] obtain p q where t: "tl host = p @ CHR ''.'' # q" and q: "q \<noteq> []"
    by blast
  obtain h0 where host: "host = h0 # p @ CHR ''.'' # q" using t by (cases host) auto
  have hp: "list_all email_atom (h0 # p)" and hq: "list_all email_atom q"
    using h unfolding host by simp_all
  have "s = l @ CHR ''@'' # (h0 # p) @ CHR ''.'' # q" unfolding s r0 a host by simp
  with l q la hp hq show ?R by blast
next
  assume ?R
  then obtain l x y where s: "s = l @ CHR ''@'' # x @ CHR ''.'' # y" and n: "l \<noteq> []" "x \<noteq> []" "y \<noteq> []"
    and a: "list_all email_atom l" "list_all email_atom x" "list_all email_atom y" by blast
  have na: "\<not> email_atom CHR ''@''" by (simp add: email_atom_def)
  have da: "email_atom CHR ''.''" by (simp add: email_atom_def is_space_def)
  have al: "\<forall>c\<in>set l. email_atom c" using a(1) by (simp add: list_all_iff)
  have tw: "takeWhile email_atom s = l" unfolding s using al na
    by (simp add: takeWhile_tail)
  have dw: "dropWhile email_atom s = CHR ''@'' # x @ CHR ''.'' # y" unfolding s using al na
    by (simp add: dropWhile_append)
  obtain x0 xs where x: "x = x0 # xs" using n(2) by (cases x) auto
  have "butlast (tl (x @ CHR ''.'' # y)) = xs @ CHR ''.'' # butlast y"
    using n(3) by (simp add: x butlast_append)
  then have dot: "CHR ''.'' \<in> set (butlast (tl (x @ CHR ''.'' # y)))" by simp
  have ah: "list_all email_atom (x @ CHR ''.'' # y)" using a da by simp
  show ?L unfolding email_pattern_def Let_def tw dw using n(1) dot ah by simp
qed

section \<open>Splitting strings\<close>

lemma js_split_ne: "js_split c xs \<noteq> []"
  by (induction xs) (auto split: list.splits)

lemma js_split_none: "c \<notin> set xs \<Longrightarrow> js_split c xs = [xs]"
  by (induction xs) auto

lemma js_split_append: "c \<notin> set xs \<Longrightarrow> js_split c (xs @ c # ys) = xs # js_split c ys"
  by (induction xs) auto

lemma js_split_pieces: "w \<in> set (js_split c xs) \<Longrightarrow> c \<notin> set w"
proof (induction xs arbitrary: w)
  case Nil
  then show ?case by simp
next
  case (Cons x xs)
  then show ?case
    by (cases "js_split c xs") (auto split: if_splits)
qed

lemma js_split_two_parts:
  "js_split c h = [a, b] \<Longrightarrow> h = a @ c # b"
proof (induction h arbitrary: a)
  case Nil
  then show ?case by simp
next
  case (Cons x xs)
  show ?case
  proof (cases "x = c")
    case True
    with Cons.prems have "a = []" and "js_split c xs = [b]" by auto
    moreover have "c \<notin> set b" using js_split_pieces[of b c xs] \<open>js_split c xs = [b]\<close> by simp
    moreover have "xs = b"
    proof -
      have "\<And>ys. js_split c ys = [b] \<Longrightarrow> ys = b"
      proof -
        fix ys show "js_split c ys = [b] \<Longrightarrow> ys = b"
          by (induction ys arbitrary: b) (auto split: if_splits list.splits simp: js_split_ne)
      qed
      then show ?thesis using \<open>js_split c xs = [b]\<close> by blast
    qed
    ultimately show ?thesis using True by simp
  next
    case False
    with Cons.prems obtain a' where "a = x # a'" and "js_split c xs = [a', b]"
      by (auto split: list.splits)
    then show ?thesis using Cons.IH by simp
  qed
qed

section \<open>The gate, case by case\<close>

lemma bearer_split:
  "(length (js_split CHR '' '' h) = 2 \<and> hd (js_split CHR '' '' h) = ''Bearer'') = bearer_form h"
proof
  assume a: "length (js_split CHR '' '' h) = 2 \<and> hd (js_split CHR '' '' h) = ''Bearer''"
  then obtain b where s: "js_split CHR '' '' h = [''Bearer'', b]"
    by (cases "js_split CHR '' '' h"; cases "tl (js_split CHR '' '' h)") auto
  then have "h = ''Bearer'' @ CHR '' '' # b" by (rule js_split_two_parts)
  moreover have "CHR '' '' \<notin> set b" using js_split_pieces[of b "CHR '' ''" h] s by simp
  ultimately show "bearer_form h" by (simp add: bearer_form_def)
next
  assume "bearer_form h"
  then have t: "take 7 h = ''Bearer ''" and n: "CHR '' '' \<notin> set (drop 7 h)"
    by (simp_all add: bearer_form_def)
  define t where "t = drop 7 h"
  have "h = take 7 h @ drop 7 h" by simp
  then have h: "h = ''Bearer '' @ t" unfolding t t_def .
  have "js_split CHR '' '' (''Bearer '' @ t) = [''Bearer'', t]"
    using n by (simp add: js_split_none t_def)
  then show "length (js_split CHR '' '' h) = 2 \<and> hd (js_split CHR '' '' h) = ''Bearer''"
    unfolding h by simp
qed

lemma gate_no_header:
  "authHeader = None \<or> authHeader = Some [] \<Longrightarrow>
   verifyToken J secret now authHeader = Respond (message_response 401 ''No token provided'')"
  by (auto simp: verifyToken_def)

lemma gate_bad_format:
  "h \<noteq> [] \<Longrightarrow> \<not> bearer_form h \<Longrightarrow>
   verifyToken J secret now (Some h) = Respond (message_response 401 ''Invalid token format'')"
  using bearer_split[of h] by (auto simp: verifyToken_def Let_def)

lemma gate_bearer:
  "h \<noteq> [] \<Longrightarrow> bearer_form h \<Longrightarrow>
   verifyToken J secret now (Some h) =
     (case jwt_verify J (drop 7 h) secret now of
        Inl TokenExpiredError \<Rightarrow> Respond (message_response 401 ''Token expired'')
      | Inl JsonWebTokenError \<Rightarrow> Respond (message_response 401 ''Invalid token'')
      | Inr decoded \<Rightarrow> Continue (pid decoded))"
proof -
  assume ne: "h \<noteq> []" and bf: "bearer_form h"
  define t where "t = drop 7 h"
  have "h = take 7 h @ drop 7 h" by simp
  then have h: "h = ''Bearer '' @ t" using bf unfolding t_def bearer_form_def by simp
  have n: "CHR '' '' \<notin> set t" using bf by (simp add: bearer_form_def t_def)
  have sp: "js_split CHR '' '' (''Bearer '' @ t) = [''Bearer'', t]"
    using n by (simp add: js_split_none)
  show ?thesis unfolding h using sp by (simp add: verifyToken_def Let_def)
qed

section \<open>The stand-ins meet the contracts\<close>

lemma digit_val_char: "d < 10 \<Longrightarrow> digit_val (digit_char d) = d"
  by (simp add: digit_val_def digit_char_def)

lemma undec_snoc: "undec (s @ [c]) = 10 * undec s + digit_val c"
  by (simp add: undec_def)

lemma undec_dec: "undec (dec n) = n"
proof (induction n rule: dec.induct)
  case (1 n)
  show ?case
  proof (cases "n < 10")
    case True
    then show ?thesis by (simp add: dec.simps[of n] undec_def digit_val_char)
  next
    case False
    then have "undec (dec n) = 10 * undec (dec (n div 10)) + digit_val (digit_char (n mod 10))"
      by (simp add: dec.simps[of n] undec_snoc)
    also have "\<dots> = 10 * (n div 10) + n mod 10"
      using 1 False by (simp add: digit_val_char)
    finally show ?thesis by simp
  qed
qed

lemma digit_char_code: "d < 10 \<Longrightarrow> (of_char (digit_char d) :: nat) = 48 + d"
  by (simp add: digit_char_def)

lemma digit_char_plain: "d < 10 \<Longrightarrow> digit_char d \<noteq> CHR ''.'' \<and> digit_char d \<noteq> CHR '' ''"
proof -
  assume d: "d < 10"
  have a: "(of_char (digit_char d) :: nat) = 48 + d" using d by (rule digit_char_code)
  have b: "(of_char (CHR ''.'') :: nat) = 46" "(of_char (CHR '' '') :: nat) = 32" by simp_all
  have "(of_char (digit_char d) :: nat) \<noteq> of_char (CHR ''.'')" unfolding a b by arith
  moreover have "(of_char (digit_char d) :: nat) \<noteq> of_char (CHR '' '')" unfolding a b by arith
  ultimately show ?thesis by auto
qed

lemma dec_chars: "c \<in> set (dec n) \<Longrightarrow> c \<noteq> CHR ''.'' \<and> c \<noteq> CHR '' ''"
proof (induction n rule: dec.induct)
  case (1 n)
  show ?case
  proof (cases "n < 10")
    case True
    with 1 show ?thesis using digit_char_plain[of n] by (simp add: dec.simps[of n])
  next
    case False
    have "n mod 10 < 10" by simp
    with 1 False show ?thesis using digit_char_plain[of "n mod 10"]
      by (auto simp: dec.simps[of n])
  qed
qed

lemma dec_nonempty: "dec n \<noteq> []"
  by (simp add: dec.simps[of n])

lemma dec_no_dot: "CHR ''.'' \<notin> set (dec n)"
  using dec_chars by blast

lemma dec_no_blank: "CHR '' '' \<notin> set (dec n)"
  using dec_chars by blast

lemma stub_open_sign: "stub_open k (stub_sign k p) = Some p"
proof -
  have "js_split CHR ''.'' (stub_sign k p) = [dec (pid p), dec (iat p), dec (exp p), dec (length k)]"
    unfolding stub_sign_def
    by (simp add: js_split_append js_split_none dec_no_dot)
  then show ?thesis by (simp add: stub_open_def undec_dec)
qed

lemma stub_jws_ok: "jws_ok stub_jws"
  by (simp add: jws_ok_def stub_jws_def stub_open_sign)
     (simp add: stub_sign_def dec_no_blank dec_nonempty)

lemma stub_bcrypt_ideal: "ideal_bcrypt stub_bcrypt"
  by (auto simp: ideal_bcrypt_def stub_bcrypt_def)

section \<open>The authorization gate\<close>

text \<open>
  Claim C6, as the code has it. The gate answers 401 \<^verbatim>\<open>No token provided\<close> when the
  Authorization header is missing or empty, and 401 \<^verbatim>\<open>Invalid token format\<close> when it is
  non-empty and not of the form \<^verbatim>\<open>Bearer <token>\<close> (the scheme, one blank, a token
  without blanks). In both cases the route answers with the gate's response whatever
  the handler behind it is, and the store is as it was: the handler is not invoked.
\<close>

theorem gate_rejects_before_handler:
  "(authHeader = None \<or> authHeader = Some [] \<longrightarrow>
      goals_route J secret now authHeader handler db =
        (message_response 401 ''No token provided'', db)) \<and>
   (\<forall>h. authHeader = Some h \<and> h \<noteq> [] \<and> \<not> bearer_form h \<longrightarrow>
      goals_route J secret now authHeader handler db =
        (message_response 401 ''Invalid token format'', db))"
  by (auto simp: goals_route_def gate_no_header gate_bad_format)

theorem gate_rejects_before_handler_witness:
  "goals_route stub_jws (Some ''k'') 0 None (getAllGoals None) \<lparr>users = [], goals = []\<rparr> =
     (message_response 401 ''No token provided'', \<lparr>users = [], goals = []\<rparr>) \<and>
   goals_route stub_jws (Some ''k'') 0 (Some ''Basic abc'') (getAllGoals None) \<lparr>users = [], goals = []\<rparr> =
     (message_response 401 ''Invalid token format'', \<lparr>users = [], goals = []\<rparr>)"
  using gate_rejects_before_handler [of None stub_jws "Some ''k''" 0 "getAllGoals None" "\<lparr>users = [], goals = []\<rparr>"]
        gate_rejects_before_handler [of "Some ''Basic abc''" stub_jws "Some ''k''" 0 "getAllGoals None" "\<lparr>users = [], goals = []\<rparr>"]
  by (simp add: bearer_form_def)

text \<open>
  Claim C6 as stated fails on an empty header value: it is present and is not of the
  two-part form, and the gate answers with the no-token message, not the bad-format one.
\<close>

theorem empty_header_counterexample:
  "\<not> bearer_form [] \<and>
   verifyToken stub_jws (Some ''k'') 0 (Some []) = Respond (message_response 401 ''No token provided'') \<and>
   verifyToken stub_jws (Some ''k'') 0 (Some []) \<noteq> Respond (message_response 401 ''Invalid token format'')"
  by (simp add: bearer_form_def verifyToken_def message_response_def)

section \<open>Token lifecycle\<close>

lemma login_ok_cases:
  assumes "login B J secret fault now b db = Response 200 r"
  shows "\<exists>u k. find (\<lambda>u. username u = js_trim (text_of (body_username b))) (users db) = Some u \<and>
           comparePassword B u (text_of (body_password b)) \<and>
           usable_secret secret = Some k \<and>
           r = Some (JObj [(''token'', JStr (jws_sign J k \<lparr>pid = user_id u, iat = now div 1000, exp = now div 1000 + 3600\<rparr>)),
                           (''user'', JObj [(''id'', JId (user_id u)), (''username'', JStr (username u))])])"
  using assms
  by (auto simp: login_def Let_def User_findOne_def message_response_def server_error_def jwt_sign_def
           split: if_splits option.splits sum.splits)

lemma login_ann:
  "login stub_bcrypt stub_jws (Some ''k'') None 5000 ann_body \<lparr>users = [ann], goals = []\<rparr> =
     Response 200 (Some (JObj [(''token'', JStr ''7.5.3605.1''),
                               (''user'', JObj [(''id'', JId 7), (''username'', JStr ''ann'')])]))"
  by code_simp

text \<open>
  Claim C3. When login answers 200 with a token at time \<open>t\<close>, the user in the response is
  the stored user of that name, and the header \<^verbatim>\<open>Bearer <token>\<close> presented to the gate
  binds exactly that user's id at every time whose second is before the expiry
  \<open>t div 1000 + 3600\<close>, and is answered 401 \<^verbatim>\<open>Token expired\<close> from the expiry on; that
  response differs from the 401 \<^verbatim>\<open>Invalid token\<close> of an invalid token.
\<close>

theorem token_lifecycle:
  assumes "jws_ok J"
      and "login B J secret fault t b db = Response 200 (Some r)"
      and "field ''token'' r = Some (JStr token)"
  shows "\<exists>u. find (\<lambda>u. username u = js_trim (text_of (body_username b))) (users db) = Some u \<and>
           field ''user'' r = Some (JObj [(''id'', JId (user_id u)), (''username'', JStr (username u))]) \<and>
           (\<forall>t'. t' div 1000 < t div 1000 + 3600 \<longrightarrow>
              verifyToken J secret t' (Some (''Bearer '' @ token)) = Continue (user_id u)) \<and>
           (\<forall>t'. t div 1000 + 3600 \<le> t' div 1000 \<longrightarrow>
              verifyToken J secret t' (Some (''Bearer '' @ token)) =
                Respond (message_response 401 ''Token expired'')) \<and>
           message_response 401 ''Token expired'' \<noteq> message_response 401 ''Invalid token''"
proof -
  from login_ok_cases[OF assms(2)] obtain u k where
    f: "find (\<lambda>u. username u = js_trim (text_of (body_username b))) (users db) = Some u"
    and k: "usable_secret secret = Some k"
    and r: "r = JObj [(''token'', JStr (jws_sign J k \<lparr>pid = user_id u, iat = t div 1000, exp = t div 1000 + 3600\<rparr>)),
                      (''user'', JObj [(''id'', JId (user_id u)), (''username'', JStr (username u))])]"
    by auto
  define p where "p = \<lparr>pid = user_id u, iat = t div 1000, exp = t div 1000 + 3600\<rparr>"
  have tok: "token = jws_sign J k p" using r assms(3) by (simp add: p_def)
  have op: "jws_open J k token = Some p" and ne: "token \<noteq> []" and nb: "CHR '' '' \<notin> set token"
    using assms(1) unfolding tok jws_ok_def by auto
  have bf: "bearer_form (''Bearer '' @ token)" using nb by (simp add: bearer_form_def)
  have v: "\<And>t'. verifyToken J secret t' (Some (''Bearer '' @ token)) =
      (if exp p \<le> t' div 1000 then Respond (message_response 401 ''Token expired'')
       else Continue (pid p))"
    using gate_bearer[OF _ bf] by (simp add: jwt_verify_def ne k op)
  have "field ''user'' r = Some (JObj [(''id'', JId (user_id u)), (''username'', JStr (username u))])"
    using r by simp
  moreover have "message_response 401 ''Token expired'' \<noteq> message_response 401 ''Invalid token''"
    by (simp add: message_response_def)
  ultimately show ?thesis using f v by (auto simp: p_def)
qed

theorem token_lifecycle_witness:
  "jws_ok stub_jws \<and>
   login stub_bcrypt stub_jws (Some ''k'') None 5000 ann_body \<lparr>users = [ann], goals = []\<rparr> =
     Response 200 (Some (JObj [(''token'', JStr ''7.5.3605.1''),
                               (''user'', JObj [(''id'', JId 7), (''username'', JStr ''ann'')])])) \<and>
   verifyToken stub_jws (Some ''k'') 3604999 (Some ''Bearer 7.5.3605.1'') = Continue 7 \<and>
   verifyToken stub_jws (Some ''k'') 3605000 (Some ''Bearer 7.5.3605.1'') =
     Respond (message_response 401 ''Token expired'')"
proof -
  let ?r = "JObj [(''token'', JStr ''7.5.3605.1''),
                  (''user'', JObj [(''id'', JId 7), (''username'', JStr ''ann'')])]"
  have f: "field ''token'' ?r = Some (JStr ''7.5.3605.1'')" by simp
  have "\<exists>u. find (\<lambda>u. username u = js_trim (text_of (body_username ann_body)))
               (users \<lparr>users = [ann], goals = []\<rparr>) = Some u \<and>
           field ''user'' ?r = Some (JObj [(''id'', JId (user_id u)), (''username'', JStr (username u))]) \<and>
           (\<forall>t'. t' div 1000 < 5000 div 1000 + 3600 \<longrightarrow>
              verifyToken stub_jws (Some ''k'') t' (Some (''Bearer '' @ ''7.5.3605.1'')) = Continue (user_id u)) \<and>
           (\<forall>t'. 5000 div 1000 + 3600 \<le> t' div 1000 \<longrightarrow>
              verifyToken stub_jws (Some ''k'') t' (Some (''Bearer '' @ ''7.5.3605.1'')) =
                Respond (message_response 401 ''Token expired'')) \<and>
           message_response 401 ''Token expired'' \<noteq> message_response 401 ''Invalid token''"
    (is "\<exists>u. ?F u \<and> ?U u \<and> ?A u \<and> ?B u \<and> ?D")
    by (rule token_lifecycle [OF stub_jws_ok login_ann f])
  then obtain u where H: "?F u \<and> ?U u \<and> ?A u \<and> ?B u \<and> ?D" ..
  have u: "?U u" and a: "?A u" and b: "?B u"
    using H by (blast, blast, blast)
  from u have id: "user_id u = 7" by simp
  have "(3604999::nat) div 1000 < 5000 div 1000 + 3600" by simp
  with a id have 1: "verifyToken stub_jws (Some ''k'') 3604999 (Some (''Bearer '' @ ''7.5.3605.1'')) = Continue 7"
    by metis
  have "(5000::nat) div 1000 + 3600 \<le> 3605000 div 1000" by simp
  with b have 2: "verifyToken stub_jws (Some ''k'') 3605000 (Some (''Bearer '' @ ''7.5.3605.1'')) =
                Respond (message_response 401 ''Token expired'')" by blast
  show ?thesis using stub_jws_ok login_ann 1 2 by simp
qed

section \<open>Signup followed by login\<close>

lemma signup_created:
  assumes "signup B faults salts fresh now b db = (Response 201 r, db')"
  shows "\<not> bad_username (body_username b) \<and> \<not> bad_password (body_password b) \<and>
         find (\<lambda>u. username u = js_trim (text_of (body_username b)) \<or>
                    email u = toLowerCase (text_of (body_email b))) (users db) = None \<and>
         db' = db\<lparr>users := users db @
           [\<lparr>user_id = fresh, username = js_trim (text_of (body_username b)),
             email = toLowerCase (text_of (body_email b)),
             password = bcrypt_hash B (bcrypt_hash B (text_of (body_password b)) (fst salts)) (snd salts),
             userCreatedAt = now, userUpdatedAt = now\<rparr>]\<rparr>"
  using assms
  by (auto simp: signup_def Let_def User_findOne_def User_save_def new_User_def pre_save_def
                 message_response_def server_error_def
           split: if_splits option.splits sum.splits)

lemma find_snoc_new:
  "find P xs = None \<Longrightarrow> P x \<Longrightarrow> find P (xs @ [x]) = Some x"
  by (induction xs) (auto split: if_splits)

lemma signup_ann:
  "signup stub_bcrypt (None, None) (''s1'', ''s2'') 7 1000 ann_body \<lparr>users = [], goals = []\<rparr> =
     (Response 201 (Some (JObj [(''message'', JStr ''User created successfully''),
        (''user'', JObj [(''id'', JId 7), (''username'', JStr ''ann''), (''email'', JStr ''ann@x.com'')])])),
      \<lparr>users = [\<lparr>user_id = 7, username = ''ann'', email = ''ann@x.com'', password = ''$$password1'',
                  userCreatedAt = 1000, userUpdatedAt = 1000\<rparr>], goals = []\<rparr>)"
  by code_simp

text \<open>
  Claim C1 does not hold of the code. signup stores the hash of a hash:
  \<^verbatim>\<open>bcrypt.hash(password, 10)\<close> in the handler, and again in the pre-save hook of the
  schema. For a hasher that meets \<open>ideal_bcrypt\<close>, after any signup answered 201 a login
  with the same body is answered 401 \<^verbatim>\<open>Invalid credentials\<close>, whatever the clock, the
  key and the token layer.
\<close>

theorem signup_then_login_rejected:
  assumes "ideal_bcrypt B"
      and "signup B faults salts fresh now b db = (Response 201 r, db')"
  shows "login B J secret None now' b db' = message_response 401 ''Invalid credentials''"
proof -
  define un where "un = js_trim (text_of (body_username b))"
  define pw where "pw = text_of (body_password b)"
  define stored where "stored = bcrypt_hash B (bcrypt_hash B pw (fst salts)) (snd salts)"
  define u where "u = \<lparr>user_id = fresh, username = un,
             email = toLowerCase (text_of (body_email b)), password = stored,
             userCreatedAt = now, userUpdatedAt = now\<rparr>"
  from signup_created[OF assms(2)] have
    ok: "\<not> bad_username (body_username b)" "\<not> bad_password (body_password b)"
    and none: "find (\<lambda>x. username x = un \<or> email x = toLowerCase (text_of (body_email b))) (users db) = None"
    and db': "users db' = users db @ [u]"
    by (simp_all add: un_def pw_def stored_def u_def)
  from none have "find (\<lambda>x. username x = un) (users db) = None"
    by (auto simp: find_None_iff)
  then have f: "find (\<lambda>x. username x = un) (users db') = Some u"
    unfolding db' by (rule find_snoc_new) (simp add: u_def)
  have "bcrypt_hash B pw (fst salts) \<noteq> pw" using assms(1) by (simp add: ideal_bcrypt_def)
  then have "\<not> bcrypt_compare B pw stored"
    using assms(1) unfolding stored_def ideal_bcrypt_def by metis
  then have "\<not> comparePassword B u pw" by (simp add: comparePassword_def u_def)
  then show ?thesis using ok f
    by (simp add: login_def Let_def User_findOne_def un_def[symmetric] pw_def[symmetric])
qed

theorem signup_then_login_rejected_witness:
  "ideal_bcrypt stub_bcrypt \<and>
   signup stub_bcrypt (None, None) (''s1'', ''s2'') 7 1000 ann_body \<lparr>users = [], goals = []\<rparr> =
     (Response 201 (Some (JObj [(''message'', JStr ''User created successfully''),
        (''user'', JObj [(''id'', JId 7), (''username'', JStr ''ann''), (''email'', JStr ''ann@x.com'')])])),
      \<lparr>users = [\<lparr>user_id = 7, username = ''ann'', email = ''ann@x.com'', password = ''$$password1'',
                  userCreatedAt = 1000, userUpdatedAt = 1000\<rparr>], goals = []\<rparr>) \<and>
   login stub_bcrypt stub_jws (Some ''k'') None 2000 ann_body
     \<lparr>users = [\<lparr>user_id = 7, username = ''ann'', email = ''ann@x.com'', password = ''$$password1'',
                 userCreatedAt = 1000, userUpdatedAt = 1000\<rparr>], goals = []\<rparr> =
     message_response 401 ''Invalid credentials''"
  using stub_bcrypt_ideal signup_ann
        signup_then_login_rejected [OF stub_bcrypt_ideal signup_ann, of stub_jws "Some ''k''" 2000]
  by simp

section \<open>Owner-scoped access\<close>

lemma modify_first_none:
  "\<forall>x\<in>set xs. \<not> P x \<Longrightarrow> modify_first P f xs = (None, xs)"
  by (induction xs) auto

lemma delete_first_none:
  "\<forall>x\<in>set xs. \<not> P x \<Longrightarrow> delete_first P xs = (None, xs)"
  by (induction xs) auto

lemma modify_first_None_same: "modify_first P f xs = (None, ys) \<Longrightarrow> ys = xs"
  by (induction xs arbitrary: ys) (auto split: if_splits prod.splits)

lemma delete_first_None_same: "delete_first P xs = (None, ys) \<Longrightarrow> ys = xs"
  by (induction xs arbitrary: ys) (auto split: if_splits prod.splits)

lemma modify_first_Some:
  "modify_first P f xs = (Some y, ys) \<Longrightarrow>
   \<exists>as x bs. xs = as @ x # bs \<and> P x \<and> (\<forall>a\<in>set as. \<not> P a) \<and> y = f x \<and> ys = as @ f x # bs"
proof (induction xs arbitrary: ys)
  case Nil
  then show ?case by simp
next
  case (Cons x xs)
  show ?case
  proof (cases "P x")
    case True
    with Cons.prems have "y = f x" "ys = f x # xs" by auto
    with True show ?thesis by (intro exI[of _ "[]"] exI[of _ x] exI[of _ xs]) simp
  next
    case False
    with Cons.prems obtain zs where m: "modify_first P f xs = (Some y, zs)" and ys: "ys = x # zs"
      by (auto split: prod.splits)
    from Cons.IH[OF m] obtain as a bs where
      "xs = as @ a # bs" "P a" "\<forall>a\<in>set as. \<not> P a" "y = f a" "zs = as @ f a # bs" by blast
    with False ys show ?thesis
      by (intro exI[of _ "x # as"] exI[of _ a] exI[of _ bs]) simp
  qed
qed

lemma other_owner_no_match:
  assumes "g \<in> set gs" and "distinct (map goal_id gs)" and "uid \<noteq> userId g"
  shows "\<forall>x\<in>set gs. \<not> (goal_id x = goal_id g \<and> userId x = uid)"
proof
  fix x assume x: "x \<in> set gs"
  show "\<not> (goal_id x = goal_id g \<and> userId x = uid)"
  proof
    assume a: "goal_id x = goal_id g \<and> userId x = uid"
    with assms(1,2) x have "x = g" by (meson distinct_map inj_onD)
    with a assms(3) show False by simp
  qed
qed

lemma delete_unmatched:
  "\<forall>x\<in>set (goals db). \<not> (goal_id x = gid \<and> userId x = uid) \<Longrightarrow>
   deleteGoal fault gid uid db =
     (case fault of Some e \<Rightarrow> server_error e | None \<Rightarrow> message_response 404 ''Goal not found'', db)"
  by (cases fault) (simp_all add: deleteGoal_def Goal_findOneAndDelete_def delete_first_none)

lemma update_unmatched:
  "\<forall>x\<in>set (goals db). \<not> (goal_id x = gid \<and> userId x = uid) \<Longrightarrow>
   updateGoal fault now gid b uid db =
     (if update_errors b \<noteq> [] then invalid_input (validation_error ''Validation failed'' (update_errors b))
      else case fault of Some e \<Rightarrow> catch_goal_error e
                       | None \<Rightarrow> message_response 404 ''Goal not found'', db)"
  by (cases fault)
     (simp_all add: updateGoal_def Goal_findOneAndUpdate_def modify_first_none
                    catch_goal_error_def validation_error_def)

text \<open>
  Claim C2, as the code has it. Let \<open>g\<close> be a stored goal (ids are unique in the
  collection) and \<open>uid\<close> a user other than its owner. When the store call goes through,
  delete of \<open>g\<close>'s id by \<open>uid\<close> is answered 404 \<^verbatim>\<open>Goal not found\<close>, and so is update when
  the body passes the validators; an update whose body fails them is answered 400, since
  the validators run before the store is asked. In every case, and whatever the store
  call does, the response is the one for an id that no goal has, and the store is
  unchanged.
\<close>

theorem cross_user_access_not_found:
  assumes "g \<in> set (goals db)" and "distinct (map goal_id (goals db))" and "uid \<noteq> userId g"
      and "absent \<notin> goal_id ` set (goals db)"
  shows "deleteGoal None (goal_id g) uid db = (message_response 404 ''Goal not found'', db) \<and>
         (update_errors b = [] \<longrightarrow>
            updateGoal None now (goal_id g) b uid db = (message_response 404 ''Goal not found'', db)) \<and>
         (update_errors b \<noteq> [] \<longrightarrow>
            status (fst (updateGoal None now (goal_id g) b uid db)) = 400) \<and>
         deleteGoal fault (goal_id g) uid db = deleteGoal fault absent uid db \<and>
         updateGoal fault now (goal_id g) b uid db = updateGoal fault now absent b uid db \<and>
         snd (deleteGoal fault (goal_id g) uid db) = db \<and>
         snd (updateGoal fault now (goal_id g) b uid db) = db"
proof -
  have 1: "\<forall>x\<in>set (goals db). \<not> (goal_id x = goal_id g \<and> userId x = uid)"
    using assms(1-3) by (rule other_owner_no_match)
  have 2: "\<forall>x\<in>set (goals db). \<not> (goal_id x = absent \<and> userId x = uid)"
    using assms(4) by auto
  show ?thesis
    unfolding delete_unmatched[OF 1] delete_unmatched[OF 2]
              update_unmatched[OF 1] update_unmatched[OF 2]
    by (simp add: invalid_input_def)
qed

theorem cross_user_access_not_found_witness:
  "run_goal \<in> set (goals \<lparr>users = [], goals = [run_goal]\<rparr>) \<and>
   distinct (map goal_id (goals \<lparr>users = [], goals = [run_goal]\<rparr>)) \<and>
   (8::nat) \<noteq> userId run_goal \<and>
   (2::nat) \<notin> goal_id ` set (goals \<lparr>users = [], goals = [run_goal]\<rparr>) \<and>
   update_errors run_body = [] \<and>
   deleteGoal None (goal_id run_goal) 8 \<lparr>users = [], goals = [run_goal]\<rparr> =
     (message_response 404 ''Goal not found'', \<lparr>users = [], goals = [run_goal]\<rparr>) \<and>
   updateGoal None 5000 (goal_id run_goal) run_body 8 \<lparr>users = [], goals = [run_goal]\<rparr> =
     (message_response 404 ''Goal not found'', \<lparr>users = [], goals = [run_goal]\<rparr>) \<and>
   updateGoal None 5000 (goal_id run_goal) run_body 8 \<lparr>users = [], goals = [run_goal]\<rparr> =
     updateGoal None 5000 2 run_body 8 \<lparr>users = [], goals = [run_goal]\<rparr>"
proof -
  let ?db = "\<lparr>users = [], goals = [run_goal]\<rparr>"
  have a: "run_goal \<in> set (goals ?db)" by simp
  have b: "distinct (map goal_id (goals ?db))" by simp
  have c: "(8::nat) \<noteq> userId run_goal" by (simp add: run_goal_def)
  have d: "(2::nat) \<notin> goal_id ` set (goals ?db)" by (simp add: run_goal_def)
  have e: "update_errors run_body = []" by code_simp
  note T = cross_user_access_not_found [OF a b c d, of run_body 5000 None]
  have t1: "deleteGoal None (goal_id run_goal) 8 ?db = (message_response 404 ''Goal not found'', ?db)"
    using T by (rule conjunct1)
  have t2: "updateGoal None 5000 (goal_id run_goal) run_body 8 ?db =
              (message_response 404 ''Goal not found'', ?db)"
    using T[THEN conjunct2, THEN conjunct1] e by (rule mp)
  have t3: "updateGoal None 5000 (goal_id run_goal) run_body 8 ?db =
              updateGoal None 5000 2 run_body 8 ?db"
    using T[THEN conjunct2, THEN conjunct2, THEN conjunct2, THEN conjunct2] by (rule conjunct1)
  show ?thesis
    by (intro conjI) (rule a b c d e t1 t2 t3)+
qed

text \<open>
  Claim C2 as stated fails for an update with an invalid body: another user's update of
  the goal with a two-character name is answered 400, not 404.
\<close>

theorem cross_user_update_counterexample:
  "userId run_goal \<noteq> 8 \<and>
   updateGoal None 5000 (goal_id run_goal) (run_body\<lparr>body_name := Some ''5k''\<rparr>) 8
       \<lparr>users = [], goals = [run_goal]\<rparr> =
     (Response 400 (Some (JObj
        [(''message'', JStr ''Invalid input data''),
         (''errors'', JObj [(''name'', JObj
            [(''name'', JStr ''ValidatorError''),
             (''message'', JStr ''Goal name must be at least 3 characters long.''),
             (''properties'', JObj
                [(''message'', JStr ''Goal name must be at least 3 characters long.''),
                 (''type'', JStr ''minlength''), (''minlength'', JNum 3),
                 (''path'', JStr ''name''), (''value'', JStr ''5k'')]),
             (''kind'', JStr ''minlength''), (''path'', JStr ''name''),
             (''value'', JStr ''5k'')])])])),
      \<lparr>users = [], goals = [run_goal]\<rparr>)"
  by code_simp

section \<open>Update\<close>

lemma status_message: "status (message_response st m) = st"
  by (simp add: message_response_def)

lemma status_server_error: "status (server_error e) = 500"
  by (simp add: server_error_def)

lemma status_invalid_input: "status (invalid_input e) = 400"
  by (simp add: invalid_input_def)

lemma status_catch: "status (catch_goal_error e) = (if err_name e = ''ValidationError'' then 400 else 500)"
  by (simp add: catch_goal_error_def status_server_error status_invalid_input)

lemma catch_validation: "catch_goal_error (validation_error t errs) = invalid_input (validation_error t errs)"
  by (simp add: catch_goal_error_def validation_error_def)

lemma updateGoal_unfold:
  "updateGoal fault now gid b uid db =
     (if update_errors b \<noteq> [] then (invalid_input (validation_error ''Validation failed'' (update_errors b)), db)
      else case fault of
        Some e \<Rightarrow> (catch_goal_error e, db)
      | None \<Rightarrow>
          (case modify_first (\<lambda>g. goal_id g = gid \<and> userId g = uid)
                  (\<lambda>g. (set_fields b g)\<lparr>updatedAt := now\<rparr>) (goals db) of
             (None, gs) \<Rightarrow> (message_response 404 ''Goal not found'', db\<lparr>goals := gs\<rparr>)
           | (Some g', gs) \<Rightarrow> (Response 200 (Some (Goal_toJSON g')), db\<lparr>goals := gs\<rparr>)))"
  by (simp add: updateGoal_def Goal_findOneAndUpdate_def catch_validation split: option.splits)

lemma update_ok_cases:
  assumes "updateGoal fault now gid b uid db = (Response 200 r, db')"
  shows "update_errors b = [] \<and>
         (\<exists>as g bs. goals db = as @ g # bs \<and> goal_id g = gid \<and> userId g = uid \<and>
            (\<forall>a\<in>set as. \<not> (goal_id a = gid \<and> userId a = uid)) \<and>
            r = Some (Goal_toJSON ((set_fields b g)\<lparr>updatedAt := now\<rparr>)) \<and>
            db' = db\<lparr>goals := as @ (set_fields b g)\<lparr>updatedAt := now\<rparr> # bs\<rparr>)"
proof -
  have st: "status (fst (updateGoal fault now gid b uid db)) = 200" using assms by simp
  have e: "update_errors b = []"
  proof (rule ccontr)
    assume "update_errors b \<noteq> []"
    then have "status (fst (updateGoal fault now gid b uid db)) = 400"
      by (simp add: updateGoal_unfold status_invalid_input)
    with st show False by simp
  qed
  have f: "fault = None"
  proof (cases fault)
    case (Some x)
    then have "status (fst (updateGoal fault now gid b uid db)) \<noteq> 200"
      using e by (simp add: updateGoal_unfold status_catch)
    with st show ?thesis by simp
  qed simp
  obtain y ys where m: "modify_first (\<lambda>g. goal_id g = gid \<and> userId g = uid)
          (\<lambda>g. (set_fields b g)\<lparr>updatedAt := now\<rparr>) (goals db) = (y, ys)"
    by (cases "modify_first (\<lambda>g. goal_id g = gid \<and> userId g = uid)
          (\<lambda>g. (set_fields b g)\<lparr>updatedAt := now\<rparr>) (goals db)")
  have "y \<noteq> None"
  proof
    assume "y = None"
    then have "status (fst (updateGoal fault now gid b uid db)) = 404"
      using e f m by (simp add: updateGoal_unfold status_message)
    with st show False by simp
  qed
  then obtain g' where y: "y = Some g'" by blast
  have u: "updateGoal fault now gid b uid db = (Response 200 (Some (Goal_toJSON g')), db\<lparr>goals := ys\<rparr>)"
    using e f m y by (simp add: updateGoal_unfold)
  with assms have r: "r = Some (Goal_toJSON g')" and d: "db' = db\<lparr>goals := ys\<rparr>" by simp_all
  from modify_first_Some[OF m[unfolded y]] r d e show ?thesis by blast
qed

lemma update_not_ok_same:
  assumes "status (fst (updateGoal fault now gid b uid db)) \<noteq> 200"
  shows "snd (updateGoal fault now gid b uid db) = db"
proof (cases "update_errors b = []")
  case False
  then show ?thesis by (simp add: updateGoal_unfold)
next
  case True
  show ?thesis
  proof (cases fault)
    case (Some e)
    with True show ?thesis by (simp add: updateGoal_unfold)
  next
    case None
    obtain y ys where m: "modify_first (\<lambda>g. goal_id g = gid \<and> userId g = uid)
          (\<lambda>g. (set_fields b g)\<lparr>updatedAt := now\<rparr>) (goals db) = (y, ys)"
      by (cases "modify_first (\<lambda>g. goal_id g = gid \<and> userId g = uid)
          (\<lambda>g. (set_fields b g)\<lparr>updatedAt := now\<rparr>) (goals db)")
    show ?thesis
    proof (cases y)
      case None
      with m have "ys = goals db" by (auto dest: modify_first_None_same)
      with True \<open>fault = None\<close> m None show ?thesis by (simp add: updateGoal_unfold)
    next
      case (Some g')
      with True \<open>fault = None\<close> m assms show ?thesis by (simp add: updateGoal_unfold)
    qed
  qed
qed

lemma modify_first_hit:
  "\<forall>a\<in>set as. \<not> P a \<Longrightarrow> P g \<Longrightarrow>
   modify_first P f (as @ g # bs) = (Some (f g), as @ f g # bs)"
  by (induction as) auto

lemma update_hit:
  assumes "goals db = as @ g # bs" and "goal_id g = gid" and "userId g = uid"
      and "\<forall>a\<in>set as. \<not> (goal_id a = gid \<and> userId a = uid)" and "update_errors b = []"
  shows "updateGoal None now gid b uid db =
           (Response 200 (Some (Goal_toJSON ((set_fields b g)\<lparr>updatedAt := now\<rparr>))),
            db\<lparr>goals := as @ (set_fields b g)\<lparr>updatedAt := now\<rparr> # bs\<rparr>)"
proof -
  have "modify_first (\<lambda>g. goal_id g = gid \<and> userId g = uid)
          (\<lambda>g. (set_fields b g)\<lparr>updatedAt := now\<rparr>) (as @ g # bs) =
        (Some ((set_fields b g)\<lparr>updatedAt := now\<rparr>), as @ (set_fields b g)\<lparr>updatedAt := now\<rparr> # bs)"
    using assms(2-4) by (intro modify_first_hit) simp_all
  then show ?thesis using assms(1,5) by (simp add: updateGoal_unfold)
qed

lemma update_invalid:
  "update_errors b \<noteq> [] \<Longrightarrow>
   status (fst (updateGoal fault now gid b uid db)) = 400 \<and>
   snd (updateGoal fault now gid b uid db) = db"
  by (simp add: updateGoal_unfold status_invalid_input)

text \<open>
  Claim C8. Update is a replace of the seven mutable fields. When the body passes the
  validators of the schema and the store call goes through, an update of a stored goal
  by its id and its owner answers 200 with the new goal, and the store differs from the
  old one in that goal only: its name, description, type, startDate, endDate, targetValue
  and unit are the values of the request body, as the setters of the schema cast them
  (name and description trimmed), and its \<open>updatedAt\<close> is the clock; its id, its \<open>userId\<close>,
  its progress entries and its \<open>createdAt\<close> are as before. Conversely, an update that
  answers 200 has done exactly that. A body that fails the validators is answered 400
  before the store is asked, and an update that is not answered 200 by a store call that
  goes through leaves the store as it was.
\<close>

theorem update_replaces_mutable_fields:
  "(\<forall>as g bs.
      goals db = as @ g # bs \<and> goal_id g = gid \<and> userId g = uid \<and>
      (\<forall>a\<in>set as. \<not> (goal_id a = gid \<and> userId a = uid)) \<and> update_errors b = [] \<longrightarrow>
      updateGoal None now gid b uid db =
        (Response 200 (Some (Goal_toJSON
           (g\<lparr>name := map_option js_trim (body_name b),
                description := map_option js_trim (body_description b),
                type := body_type b, startDate := body_startDate b, endDate := body_endDate b,
                targetValue := body_targetValue b, unit := body_unit b, updatedAt := now\<rparr>))),
         db\<lparr>goals := as @
           g\<lparr>name := map_option js_trim (body_name b),
                description := map_option js_trim (body_description b),
                type := body_type b, startDate := body_startDate b, endDate := body_endDate b,
                targetValue := body_targetValue b, unit := body_unit b, updatedAt := now\<rparr> # bs\<rparr>)) \<and>
   (\<forall>r db'. updateGoal fault now gid b uid db = (Response 200 r, db') \<longrightarrow>
      update_errors b = [] \<and>
      (\<exists>as g bs g'.
         goals db = as @ g # bs \<and> goal_id g = gid \<and> userId g = uid \<and>
         g' = g\<lparr>name := map_option js_trim (body_name b),
                description := map_option js_trim (body_description b),
                type := body_type b, startDate := body_startDate b, endDate := body_endDate b,
                targetValue := body_targetValue b, unit := body_unit b, updatedAt := now\<rparr> \<and>
         goal_id g' = goal_id g \<and> userId g' = userId g \<and> progress g' = progress g \<and>
         createdAt g' = createdAt g \<and>
         r = Some (Goal_toJSON g') \<and> goals db' = as @ g' # bs \<and> users db' = users db)) \<and>
   (update_errors b \<noteq> [] \<longrightarrow>
      status (fst (updateGoal fault now gid b uid db)) = 400 \<and>
      snd (updateGoal fault now gid b uid db) = db) \<and>
   (status (fst (updateGoal None now gid b uid db)) \<noteq> 200 \<longrightarrow>
      snd (updateGoal None now gid b uid db) = db)"
proof (intro conjI allI impI)
  fix as g bs
  assume a: "goals db = as @ g # bs \<and> goal_id g = gid \<and> userId g = uid \<and>
      (\<forall>a\<in>set as. \<not> (goal_id a = gid \<and> userId a = uid)) \<and> update_errors b = []"
  have s: "(set_fields b g)\<lparr>updatedAt := now\<rparr> = g\<lparr>name := map_option js_trim (body_name b),
                description := map_option js_trim (body_description b),
                type := body_type b, startDate := body_startDate b, endDate := body_endDate b,
                targetValue := body_targetValue b, unit := body_unit b, updatedAt := now\<rparr>"
    by (simp add: set_fields_def)
  from a have "updateGoal None now gid b uid db =
           (Response 200 (Some (Goal_toJSON ((set_fields b g)\<lparr>updatedAt := now\<rparr>))),
            db\<lparr>goals := as @ (set_fields b g)\<lparr>updatedAt := now\<rparr> # bs\<rparr>)"
    by (intro update_hit) simp_all
  then show "updateGoal None now gid b uid db =
        (Response 200 (Some (Goal_toJSON
           (g\<lparr>name := map_option js_trim (body_name b),
                description := map_option js_trim (body_description b),
                type := body_type b, startDate := body_startDate b, endDate := body_endDate b,
                targetValue := body_targetValue b, unit := body_unit b, updatedAt := now\<rparr>))),
         db\<lparr>goals := as @
           g\<lparr>name := map_option js_trim (body_name b),
                description := map_option js_trim (body_description b),
                type := body_type b, startDate := body_startDate b, endDate := body_endDate b,
                targetValue := body_targetValue b, unit := body_unit b, updatedAt := now\<rparr> # bs\<rparr>)"
    unfolding s .
next
  fix r db' assume a: "updateGoal fault now gid b uid db = (Response 200 r, db')"
  from update_ok_cases[OF a] show "update_errors b = []" by simp
  from update_ok_cases[OF a] obtain as g bs where
    g: "goals db = as @ g # bs" "goal_id g = gid" "userId g = uid"
       "r = Some (Goal_toJSON ((set_fields b g)\<lparr>updatedAt := now\<rparr>))"
       "db' = db\<lparr>goals := as @ (set_fields b g)\<lparr>updatedAt := now\<rparr> # bs\<rparr>"
    by blast
  show "\<exists>as g bs g'.
         goals db = as @ g # bs \<and> goal_id g = gid \<and> userId g = uid \<and>
         g' = g\<lparr>name := map_option js_trim (body_name b),
                description := map_option js_trim (body_description b),
                type := body_type b, startDate := body_startDate b, endDate := body_endDate b,
                targetValue := body_targetValue b, unit := body_unit b, updatedAt := now\<rparr> \<and>
         goal_id g' = goal_id g \<and> userId g' = userId g \<and> progress g' = progress g \<and>
         createdAt g' = createdAt g \<and>
         r = Some (Goal_toJSON g') \<and> goals db' = as @ g' # bs \<and> users db' = users db"
    using g
    by (intro exI[of _ as] exI[of _ g] exI[of _ bs]
              exI[of _ "(set_fields b g)\<lparr>updatedAt := now\<rparr>"])
       (simp add: set_fields_def)
next
  assume "update_errors b \<noteq> []"
  then show "status (fst (updateGoal fault now gid b uid db)) = 400"
    and "snd (updateGoal fault now gid b uid db) = db"
    using update_invalid by blast+
next
  assume "status (fst (updateGoal None now gid b uid db)) \<noteq> 200"
  then show "snd (updateGoal None now gid b uid db) = db" by (rule update_not_ok_same)
qed

theorem update_replaces_mutable_fields_witness:
  "goals \<lparr>users = [], goals = [run_goal]\<rparr> = [] @ run_goal # [] \<and>
   goal_id run_goal = 1 \<and> userId run_goal = 7 \<and>
   update_errors (run_body\<lparr>body_name := Some '' Run 10k ''\<rparr>) = [] \<and>
   updateGoal None 5000 1 (run_body\<lparr>body_name := Some '' Run 10k ''\<rparr>) 7
      \<lparr>users = [], goals = [run_goal]\<rparr> =
     (Response 200 (Some (Goal_toJSON (run_goal\<lparr>name := Some ''Run 10k'', updatedAt := 5000\<rparr>))),
      \<lparr>users = [], goals = [run_goal\<lparr>name := Some ''Run 10k'', updatedAt := 5000\<rparr>]\<rparr>) \<and>
   userId (run_goal\<lparr>name := Some ''Run 10k'', updatedAt := 5000\<rparr>) = userId run_goal \<and>
   progress (run_goal\<lparr>name := Some ''Run 10k'', updatedAt := 5000\<rparr>) = progress run_goal \<and>
   createdAt (run_goal\<lparr>name := Some ''Run 10k'', updatedAt := 5000\<rparr>) = createdAt run_goal \<and>
   update_errors (run_body\<lparr>body_name := Some ''5k''\<rparr>) \<noteq> [] \<and>
   status (fst (updateGoal None 5000 1 (run_body\<lparr>body_name := Some ''5k''\<rparr>) 7
                  \<lparr>users = [], goals = [run_goal]\<rparr>)) = 400 \<and>
   snd (updateGoal None 5000 1 (run_body\<lparr>body_name := Some ''5k''\<rparr>) 7
          \<lparr>users = [], goals = [run_goal]\<rparr>) = \<lparr>users = [], goals = [run_goal]\<rparr>"
proof -
  let ?db = "\<lparr>users = [], goals = [run_goal]\<rparr>"
  let ?b = "run_body\<lparr>body_name := Some '' Run 10k ''\<rparr>"
  let ?g' = "run_goal\<lparr>name := Some ''Run 10k'', updatedAt := 5000\<rparr>"
  have h1: "goals ?db = [] @ run_goal # []" by simp
  have h2: "goal_id run_goal = 1" and h3: "userId run_goal = 7" by (simp_all add: run_goal_def)
  have h4: "update_errors ?b = []" by code_simp
  have h5: "update_errors (run_body\<lparr>body_name := Some ''5k''\<rparr>) \<noteq> []" by code_simp
  have H: "goals ?db = [] @ run_goal # [] \<and> goal_id run_goal = 1 \<and> userId run_goal = 7 \<and>
      (\<forall>a\<in>set []. \<not> (goal_id a = 1 \<and> userId a = 7)) \<and> update_errors ?b = []"
    using h1 h2 h3 h4 by simp
  have eq: "run_goal\<lparr>name := map_option js_trim (body_name ?b),
                description := map_option js_trim (body_description ?b),
                type := body_type ?b, startDate := body_startDate ?b, endDate := body_endDate ?b,
                targetValue := body_targetValue ?b, unit := body_unit ?b, updatedAt := 5000\<rparr> = ?g'"
    by code_simp
  note A = update_replaces_mutable_fields
    [of ?db 1 7 ?b 5000 None, THEN conjunct1, rule_format, of "[]" run_goal "[]", OF H, unfolded eq]
  note C = update_replaces_mutable_fields
    [of ?db 1 7 "run_body\<lparr>body_name := Some ''5k''\<rparr>" 5000 None,
     THEN conjunct2, THEN conjunct2, THEN conjunct1, rule_format, OF h5]
  have a: "updateGoal None 5000 1 ?b 7 ?db = (Response 200 (Some (Goal_toJSON ?g')), \<lparr>users = [], goals = [?g']\<rparr>)"
    using A by simp
  have f: "userId ?g' = userId run_goal" "progress ?g' = progress run_goal"
          "createdAt ?g' = createdAt run_goal" by simp_all
  show ?thesis
    by (intro conjI) (rule h1 h2 h3 h4 h5 a f C[THEN conjunct1] C[THEN conjunct2])+
qed

section \<open>Create\<close>

lemma invalid_type_errors: "v \<notin> Some ` set goal_types \<Longrightarrow> type_errors v \<noteq> []"
  by (cases v) (auto simp: type_errors_def)

lemma valid_type_errors: "v \<in> Some ` set goal_types \<Longrightarrow> type_errors v = []"
  by (auto simp: type_errors_def goal_types_def)

lemma type_of_new_Goal: "type (new_Goal fresh uid b) = body_type b"
  by (simp add: new_Goal_def set_fields_def)

lemma createGoal_unfold:
  "createGoal fault fresh now b uid db =
     (if goal_errors (new_Goal fresh uid b) \<noteq> []
      then (invalid_input (validation_error ''Goal validation failed'' (goal_errors (new_Goal fresh uid b))), db)
      else case fault of
        Some e \<Rightarrow> (catch_goal_error e, db)
      | None \<Rightarrow>
          (Response 201 (Some (Goal_toJSON ((new_Goal fresh uid b)\<lparr>createdAt := now, updatedAt := now\<rparr>))),
           db\<lparr>goals := goals db @ [(new_Goal fresh uid b)\<lparr>createdAt := now, updatedAt := now\<rparr>]\<rparr>))"
  by (simp add: createGoal_def Goal_validate_def Goal_save_def Let_def catch_validation
           split: option.splits)

lemma path_filter:
  "[e \<leftarrow> name_errors v. ve_path e \<noteq> ''type''] = name_errors v"
  "[e \<leftarrow> description_errors d. ve_path e \<noteq> ''type''] = description_errors d"
  "[e \<leftarrow> type_errors t. ve_path e \<noteq> ''type''] = []"
  "[e \<leftarrow> unit_errors u. ve_path e \<noteq> ''type''] = unit_errors u"
  by (simp_all add: name_errors_def description_errors_def type_errors_def unit_errors_def
                    required_failed_def minlength_failed_def maxlength_failed_def enum_failed_def
               split: option.splits)

lemma required_filter:
  "p \<noteq> ''type'' \<Longrightarrow> [e \<leftarrow> required_errors p m v. ve_path e \<noteq> ''type''] = required_errors p m v"
  by (simp add: required_errors_def required_failed_def split: option.splits)

lemma only_type_errors:
  assumes "[e \<leftarrow> goal_errors g. ve_path e \<noteq> ''type''] = []"
  shows "goal_errors g = type_errors (type g)"
proof -
  have "[e \<leftarrow> goal_errors g. ve_path e \<noteq> ''type''] =
      name_errors (name g) @ description_errors (description g) @
      required_errors ''startDate'' ''Start date is required.'' (startDate g) @
      required_errors ''endDate'' ''End date is required.'' (endDate g) @
      required_errors ''targetValue'' ''Target value is required.'' (targetValue g) @
      unit_errors (unit g)"
    by (simp add: goal_errors_def path_filter required_filter)
  with assms show ?thesis by (simp add: goal_errors_def)
qed

lemma create_hyphen:
  "createGoal None 2 5000 (run_body\<lparr>body_type := Some ''weight-loss''\<rparr>) 7 \<lparr>users = [], goals = []\<rparr> =
     (Response 400 (Some (JObj
        [(''message'', JStr ''Invalid input data''),
         (''errors'', JObj [(''type'', JObj
            [(''name'', JStr ''ValidatorError''),
             (''message'', JStr ''`weight-loss` is not a valid enum value for path `type`.''),
             (''properties'', JObj
                [(''message'', JStr ''`weight-loss` is not a valid enum value for path `type`.''),
                 (''type'', JStr ''enum''),
                 (''enumValues'', JArr [JStr ''weight loss'', JStr ''muscle gain'',
                                        JStr ''endurance'', JStr ''other'']),
                 (''path'', JStr ''type''), (''value'', JStr ''weight-loss'')]),
             (''kind'', JStr ''enum''), (''path'', JStr ''type''),
             (''value'', JStr ''weight-loss'')])])])),
      \<lparr>users = [], goals = []\<rparr>)"
  by code_simp

lemma create_blank:
  "createGoal None 2 5000 (run_body\<lparr>body_type := Some ''weight loss''\<rparr>) 7 \<lparr>users = [], goals = []\<rparr> =
     (Response 201 (Some (Goal_toJSON
        ((new_Goal 2 7 (run_body\<lparr>body_type := Some ''weight loss''\<rparr>))\<lparr>createdAt := 5000, updatedAt := 5000\<rparr>))),
      \<lparr>users = [], goals = [(new_Goal 2 7 (run_body\<lparr>body_type := Some ''weight loss''\<rparr>))\<lparr>createdAt := 5000, updatedAt := 5000\<rparr>]\<rparr>)"
  by code_simp

text \<open>
  Claim C9, as the code has it. The enumeration of GoalSchema is \<^verbatim>\<open>weight loss\<close>,
  \<^verbatim>\<open>muscle gain\<close>, \<^verbatim>\<open>endurance\<close>, \<^verbatim>\<open>other\<close> (blanks, not hyphens). A body whose type
  is missing or is any other string is answered 400 and nothing is persisted, whatever
  the store does; a body whose type is in the enumeration and whose other paths pass
  their validators is answered 201 when the store call goes through, and the new goal
  is appended to the collection.
\<close>

theorem create_checks_type:
  "goal_types = [''weight loss'', ''muscle gain'', ''endurance'', ''other''] \<and>
   (body_type b \<notin> Some ` set goal_types \<longrightarrow>
      status (fst (createGoal fault fresh now b uid db)) = 400 \<and>
      snd (createGoal fault fresh now b uid db) = db) \<and>
   (body_type b \<in> Some ` set goal_types \<and>
    [e \<leftarrow> goal_errors (new_Goal fresh uid b). ve_path e \<noteq> ''type''] = [] \<longrightarrow>
      createGoal None fresh now b uid db =
        (Response 201 (Some (Goal_toJSON ((new_Goal fresh uid b)\<lparr>createdAt := now, updatedAt := now\<rparr>))),
         db\<lparr>goals := goals db @ [(new_Goal fresh uid b)\<lparr>createdAt := now, updatedAt := now\<rparr>]\<rparr>))"
proof (intro conjI impI)
  show "goal_types = [''weight loss'', ''muscle gain'', ''endurance'', ''other'']"
    by (simp add: goal_types_def)
next
  assume "body_type b \<notin> Some ` set goal_types"
  then have "type_errors (type (new_Goal fresh uid b)) \<noteq> []"
    unfolding type_of_new_Goal by (rule invalid_type_errors)
  then have e: "goal_errors (new_Goal fresh uid b) \<noteq> []" by (simp add: goal_errors_def)
  show "status (fst (createGoal fault fresh now b uid db)) = 400"
    using e by (simp add: createGoal_unfold status_invalid_input)
  show "snd (createGoal fault fresh now b uid db) = db"
    using e by (simp add: createGoal_unfold)
next
  assume a: "body_type b \<in> Some ` set goal_types \<and>
    [e \<leftarrow> goal_errors (new_Goal fresh uid b). ve_path e \<noteq> ''type''] = []"
  then have "goal_errors (new_Goal fresh uid b) = type_errors (body_type b)"
    using only_type_errors[of "new_Goal fresh uid b"] by (simp add: type_of_new_Goal)
  with a have "goal_errors (new_Goal fresh uid b) = []" by (simp add: valid_type_errors)
  then show "createGoal None fresh now b uid db =
        (Response 201 (Some (Goal_toJSON ((new_Goal fresh uid b)\<lparr>createdAt := now, updatedAt := now\<rparr>))),
         db\<lparr>goals := goals db @ [(new_Goal fresh uid b)\<lparr>createdAt := now, updatedAt := now\<rparr>]\<rparr>)"
    by (simp add: createGoal_unfold)
qed

theorem create_checks_type_witness:
  "Some ''weight-loss'' \<notin> Some ` set goal_types \<and>
   status (fst (createGoal None 2 5000 (run_body\<lparr>body_type := Some ''weight-loss''\<rparr>) 7
                  \<lparr>users = [], goals = []\<rparr>)) = 400 \<and>
   snd (createGoal None 2 5000 (run_body\<lparr>body_type := Some ''weight-loss''\<rparr>) 7
                  \<lparr>users = [], goals = []\<rparr>) = \<lparr>users = [], goals = []\<rparr> \<and>
   Some ''endurance'' \<in> Some ` set goal_types \<and>
   [e \<leftarrow> goal_errors (new_Goal 2 7 run_body). ve_path e \<noteq> ''type''] = [] \<and>
   createGoal None 2 5000 run_body 7 \<lparr>users = [], goals = []\<rparr> =
     (Response 201 (Some (Goal_toJSON ((new_Goal 2 7 run_body)\<lparr>createdAt := 5000, updatedAt := 5000\<rparr>))),
      \<lparr>users = [], goals = [(new_Goal 2 7 run_body)\<lparr>createdAt := 5000, updatedAt := 5000\<rparr>]\<rparr>)"
proof -
  have t1: "body_type (run_body\<lparr>body_type := Some ''weight-loss''\<rparr>) = Some ''weight-loss''" by simp
  have n: "Some ''weight-loss'' \<notin> Some ` set goal_types" by (simp add: goal_types_def)
  have t2: "body_type run_body = Some ''endurance''" by (simp add: run_body_def)
  have y: "Some ''endurance'' \<in> Some ` set goal_types" by (simp add: goal_types_def)
  have o: "[e \<leftarrow> goal_errors (new_Goal 2 7 run_body). ve_path e \<noteq> ''type''] = []" by code_simp
  note A = create_checks_type [of "run_body\<lparr>body_type := Some ''weight-loss''\<rparr>" None 2 5000 7
                                  "\<lparr>users = [], goals = []\<rparr>", THEN conjunct2, THEN conjunct1,
                               unfolded t1, rule_format, OF n]
  note B = create_checks_type [of run_body None 2 5000 7 "\<lparr>users = [], goals = []\<rparr>",
                               THEN conjunct2, THEN conjunct2, unfolded t2, rule_format, OF conjI[OF y o]]
  show ?thesis using n y o A B by simp
qed

text \<open>
  Claim C9 as stated names \<^verbatim>\<open>weight-loss\<close> and \<^verbatim>\<open>muscle-gain\<close>. On the code, a body that
  is valid but for the type \<^verbatim>\<open>weight-loss\<close> is answered 400, and the same body with the
  type \<^verbatim>\<open>weight loss\<close>, which is none of the four strings of the claim, is answered 201
  and persisted.
\<close>

theorem create_type_counterexample:
  "status (fst (createGoal None 2 5000 (run_body\<lparr>body_type := Some ''weight-loss''\<rparr>) 7
                  \<lparr>users = [], goals = []\<rparr>)) = 400 \<and>
   status (fst (createGoal None 2 5000 (run_body\<lparr>body_type := Some ''weight loss''\<rparr>) 7
                  \<lparr>users = [], goals = []\<rparr>)) = 201 \<and>
   goals (snd (createGoal None 2 5000 (run_body\<lparr>body_type := Some ''weight loss''\<rparr>) 7
                  \<lparr>users = [], goals = []\<rparr>)) \<noteq> []"
  unfolding create_hyphen create_blank by simp

section \<open>List\<close>

lemma opt_json_JStr_inj: "opt_json JStr a = opt_json JStr b \<Longrightarrow> a = b"
  by (cases a; cases b) (simp_all add: opt_json_def)

lemma opt_json_JDate_inj: "opt_json JDate a = opt_json JDate b \<Longrightarrow> a = b"
  by (cases a; cases b) (simp_all add: opt_json_def)

lemma opt_json_JNum_inj: "opt_json JNum a = opt_json JNum b \<Longrightarrow> a = b"
  by (cases a; cases b) (simp_all add: opt_json_def)

lemma progress_json_inj:
  "map (\<lambda>(d, v). JObj [(''date'', JDate d), (''value'', JNum v)]) ps =
   map (\<lambda>(d, v). JObj [(''date'', JDate d), (''value'', JNum v)]) qs \<Longrightarrow> ps = qs"
proof (induction ps arbitrary: qs)
  case Nil
  then show ?case by simp
next
  case (Cons p ps)
  then obtain q qs' where "qs = q # qs'" by (cases qs) auto
  with Cons show ?case by (cases p; cases q) auto
qed

lemma Goal_toJSON_eq:
  "Goal_toJSON g =
     JObj [(''_id'', JId (goal_id g)), (''userId'', JId (userId g)),
           (''name'', opt_json JStr (name g)),
           (''description'', opt_json JStr (description g)),
           (''type'', opt_json JStr (type g)),
           (''startDate'', opt_json JDate (startDate g)),
           (''endDate'', opt_json JDate (endDate g)),
           (''targetValue'', opt_json JNum (targetValue g)),
           (''unit'', opt_json JStr (unit g)),
           (''progress'',
              JArr (map (\<lambda>(d, v). JObj [(''date'', JDate d), (''value'', JNum v)]) (progress g))),
           (''createdAt'', JDate (createdAt g)), (''updatedAt'', JDate (updatedAt g))]"
  by (simp add: Goal_toJSON_def Goal_toObject_def)

lemma Goal_toJSON_inj: "Goal_toJSON (g::goal) = Goal_toJSON g' \<Longrightarrow> g = g'"
  unfolding Goal_toJSON_eq
  by (rule goal.equality)
     (auto dest: opt_json_JStr_inj opt_json_JDate_inj opt_json_JNum_inj progress_json_inj)

text \<open>
  Claim C10. When the store call goes through, List answers 200 with the renderings of
  the goals whose owner is the user, in the order of the collection, when there is at
  least one, and 404 \<^verbatim>\<open>No goals found for this user\<close> when there is none. The goals
  rendered are all and only the user's, and the rendering tells goals apart.
\<close>

theorem list_owned_goals:
  "((\<exists>g \<in> set (goals db). userId g = uid) \<longrightarrow>
      getAllGoals None uid db =
        (Response 200 (Some (JArr (map Goal_toJSON [g \<leftarrow> goals db. userId g = uid]))), db)) \<and>
   (\<not> (\<exists>g \<in> set (goals db). userId g = uid) \<longrightarrow>
      getAllGoals None uid db = (message_response 404 ''No goals found for this user'', db)) \<and>
   set [g \<leftarrow> goals db. userId g = uid] = {g \<in> set (goals db). userId g = uid} \<and>
   inj (Goal_toJSON :: goal \<Rightarrow> json)"
proof -
  have "([g \<leftarrow> goals db. userId g = uid] = []) = (\<not> (\<exists>g \<in> set (goals db). userId g = uid))"
    by (auto simp: filter_empty_conv)
  then show ?thesis
    by (auto simp: getAllGoals_def Goal_find_def intro: injI Goal_toJSON_inj)
qed

theorem list_owned_goals_witness:
  "(\<exists>g \<in> set (goals \<lparr>users = [], goals = [run_goal, run_goal\<lparr>goal_id := 2, userId := 8\<rparr>]\<rparr>). userId g = 7) \<and>
   getAllGoals None 7 \<lparr>users = [], goals = [run_goal, run_goal\<lparr>goal_id := 2, userId := 8\<rparr>]\<rparr> =
     (Response 200 (Some (JArr [Goal_toJSON run_goal])),
      \<lparr>users = [], goals = [run_goal, run_goal\<lparr>goal_id := 2, userId := 8\<rparr>]\<rparr>) \<and>
   \<not> (\<exists>g \<in> set (goals \<lparr>users = [], goals = [run_goal, run_goal\<lparr>goal_id := 2, userId := 8\<rparr>]\<rparr>). userId g = 9) \<and>
   getAllGoals None 9 \<lparr>users = [], goals = [run_goal, run_goal\<lparr>goal_id := 2, userId := 8\<rparr>]\<rparr> =
     (message_response 404 ''No goals found for this user'',
      \<lparr>users = [], goals = [run_goal, run_goal\<lparr>goal_id := 2, userId := 8\<rparr>]\<rparr>)"
proof -
  let ?db = "\<lparr>users = [], goals = [run_goal, run_goal\<lparr>goal_id := 2, userId := 8\<rparr>]\<rparr>"
  have a: "\<exists>g \<in> set (goals ?db). userId g = 7" by (simp add: run_goal_def)
  have b: "\<not> (\<exists>g \<in> set (goals ?db). userId g = 9)" by (simp add: run_goal_def)
  have f: "[g \<leftarrow> goals ?db. userId g = 7] = [run_goal]" by (simp add: run_goal_def)
  note A = list_owned_goals [of ?db 7, THEN conjunct1, rule_format, OF a, unfolded f]
  note B = list_owned_goals [of ?db 9, THEN conjunct2, THEN conjunct1, rule_format, OF b]
  show ?thesis using a b A B by simp
qed

section \<open>Faults of the store layer\<close>

lemma catch_store_fault:
  "err_name e \<noteq> ''ValidationError'' \<Longrightarrow> catch_goal_error e = server_error e"
  by (simp add: catch_goal_error_def)

lemma login_fault:
  "\<not> bad_username (body_username a) \<Longrightarrow> \<not> bad_password (body_password a) \<Longrightarrow>
   login B J secret (Some e) now a db = server_error e"
  by (simp add: login_def User_findOne_def Let_def)

lemma signup_find_fault:
  "\<not> bad_username (body_username a) \<Longrightarrow> \<not> bad_email (body_email a) \<Longrightarrow>
   \<not> bad_password (body_password a) \<Longrightarrow>
   signup B (Some e, f2) salts fresh now a db = (server_error e, db)"
  by (simp add: signup_def User_findOne_def Let_def)

lemma signup_save_fault:
  "\<not> bad_username (body_username a) \<Longrightarrow> \<not> bad_email (body_email a) \<Longrightarrow>
   \<not> bad_password (body_password a) \<Longrightarrow>
   find (\<lambda>u. username u = js_trim (text_of (body_username a)) \<or>
              email u = toLowerCase (text_of (body_email a))) (users db) = None \<Longrightarrow>
   user_errors (new_User fresh (text_of (body_username a)) (text_of (body_email a))
                  (bcrypt_hash B (text_of (body_password a)) (fst salts))) = [] \<Longrightarrow>
   signup B (None, Some e) salts fresh now a db = (server_error e, db)"
  by (simp add: signup_def User_findOne_def User_save_def Let_def)

lemma ann_checks:
  "\<not> bad_username (body_username ann_body)" "\<not> bad_email (body_email ann_body)"
  "\<not> bad_password (body_password ann_body)"
  "user_errors (new_User 2 (text_of (body_username ann_body)) (text_of (body_email ann_body))
                   (bcrypt_hash stub_bcrypt (text_of (body_password ann_body)) (fst (''s1'', ''s2'')))) = []"
  by code_simp+

text \<open>
  Claim C7, as the code has it. When a store call of a handler fails with an error \<open>e\<close>
  of the driver, the handler answers 500 with exactly two fields: the fixed message
  \<^verbatim>\<open>Internal Server Error\<close> and \<^verbatim>\<open>error\<close>, the message string of \<open>e\<close> as the driver gave
  it; nothing else of \<open>e\<close> is in the response. This holds for the store call of List and
  Delete, for those of Create, Update and login once the request has passed validation
  (an error named \<^verbatim>\<open>ValidationError\<close> is answered 400 by Create and Update), and for
  both store calls of signup.
\<close>

theorem store_fault_response:
  "server_error e =
     Response 500 (Some (JObj [(''message'', JStr ''Internal Server Error''),
                               (''error'', JStr (err_message e))])) \<and>
   fst (getAllGoals (Some e) uid db) = server_error e \<and>
   fst (deleteGoal (Some e) gid uid db) = server_error e \<and>
   (err_name e \<noteq> ''ValidationError'' \<and> goal_errors (new_Goal fresh uid b) = [] \<longrightarrow>
      fst (createGoal (Some e) fresh now b uid db) = server_error e) \<and>
   (err_name e \<noteq> ''ValidationError'' \<and> update_errors b = [] \<longrightarrow>
      fst (updateGoal (Some e) now gid b uid db) = server_error e) \<and>
   (\<not> bad_username (body_username a) \<and> \<not> bad_password (body_password a) \<longrightarrow>
      login B J secret (Some e) now a db = server_error e) \<and>
   (\<not> bad_username (body_username a) \<and> \<not> bad_email (body_email a) \<and>
    \<not> bad_password (body_password a) \<longrightarrow>
      fst (signup B (Some e, f2) salts fresh now a db) = server_error e) \<and>
   (\<not> bad_username (body_username a) \<and> \<not> bad_email (body_email a) \<and>
    \<not> bad_password (body_password a) \<and>
    find (\<lambda>u. username u = js_trim (text_of (body_username a)) \<or>
               email u = toLowerCase (text_of (body_email a))) (users db) = None \<and>
    user_errors (new_User fresh (text_of (body_username a)) (text_of (body_email a))
                   (bcrypt_hash B (text_of (body_password a)) (fst salts))) = [] \<longrightarrow>
      fst (signup B (None, Some e) salts fresh now a db) = server_error e)"
proof (intro conjI impI)
  show "server_error e =
     Response 500 (Some (JObj [(''message'', JStr ''Internal Server Error''),
                               (''error'', JStr (err_message e))]))"
    by (simp add: server_error_def)
  show "fst (getAllGoals (Some e) uid db) = server_error e"
    by (simp add: getAllGoals_def Goal_find_def)
  show "fst (deleteGoal (Some e) gid uid db) = server_error e"
    by (simp add: deleteGoal_def Goal_findOneAndDelete_def)
next
  assume "err_name e \<noteq> ''ValidationError'' \<and> goal_errors (new_Goal fresh uid b) = []"
  then show "fst (createGoal (Some e) fresh now b uid db) = server_error e"
    by (simp add: createGoal_unfold catch_store_fault)
next
  assume "err_name e \<noteq> ''ValidationError'' \<and> update_errors b = []"
  then show "fst (updateGoal (Some e) now gid b uid db) = server_error e"
    by (simp add: updateGoal_unfold catch_store_fault)
next
  assume "\<not> bad_username (body_username a) \<and> \<not> bad_password (body_password a)"
  then show "login B J secret (Some e) now a db = server_error e"
    by (simp add: login_fault)
next
  assume "\<not> bad_username (body_username a) \<and> \<not> bad_email (body_email a) \<and>
    \<not> bad_password (body_password a)"
  then show "fst (signup B (Some e, f2) salts fresh now a db) = server_error e"
    by (simp add: signup_find_fault)
next
  assume "\<not> bad_username (body_username a) \<and> \<not> bad_email (body_email a) \<and>
    \<not> bad_password (body_password a) \<and>
    find (\<lambda>u. username u = js_trim (text_of (body_username a)) \<or>
               email u = toLowerCase (text_of (body_email a))) (users db) = None \<and>
    user_errors (new_User fresh (text_of (body_username a)) (text_of (body_email a))
                   (bcrypt_hash B (text_of (body_password a)) (fst salts))) = []"
  then show "fst (signup B (None, Some e) salts fresh now a db) = server_error e"
    by (simp add: signup_save_fault)
qed

theorem store_fault_response_witness:
  "err_name refused \<noteq> ''ValidationError'' \<and>
   goal_errors (new_Goal 2 7 run_body) = [] \<and> update_errors run_body = [] \<and>
   fst (createGoal (Some refused) 2 5000 run_body 7 \<lparr>users = [], goals = []\<rparr>) =
     server_error refused \<and>
   fst (updateGoal (Some refused) 5000 1 run_body 7 \<lparr>users = [], goals = []\<rparr>) =
     server_error refused \<and>
   login stub_bcrypt stub_jws (Some ''k'') (Some refused) 5000 ann_body \<lparr>users = [], goals = []\<rparr> =
     server_error refused \<and>
   fst (signup stub_bcrypt (Some refused, None) (''s1'', ''s2'') 2 5000 ann_body
          \<lparr>users = [], goals = []\<rparr>) = server_error refused \<and>
   fst (signup stub_bcrypt (None, Some refused) (''s1'', ''s2'') 2 5000 ann_body
          \<lparr>users = [], goals = []\<rparr>) = server_error refused"
proof -
  let ?db = "\<lparr>users = [], goals = []\<rparr>"
  have n: "err_name refused \<noteq> ''ValidationError''" by (simp add: refused_def)
  have g: "goal_errors (new_Goal 2 7 run_body) = []" by code_simp
  have u: "update_errors run_body = []" by code_simp
  have f: "find (\<lambda>u. username u = js_trim (text_of (body_username ann_body)) \<or>
               email u = toLowerCase (text_of (body_email ann_body))) (users ?db) = None" by simp
  note T = store_fault_response [of refused 7 ?db 1 2 run_body 5000 ann_body stub_bcrypt stub_jws
              "Some ''k''" None "(''s1'', ''s2'')"]
  have c: "fst (createGoal (Some refused) 2 5000 run_body 7 ?db) = server_error refused"
    using T n g by blast
  have up: "fst (updateGoal (Some refused) 5000 1 run_body 7 ?db) = server_error refused"
    using T n u by blast
  have l: "login stub_bcrypt stub_jws (Some ''k'') (Some refused) 5000 ann_body ?db = server_error refused"
    using T ann_checks(1,3) by blast
  have s1: "fst (signup stub_bcrypt (Some refused, None) (''s1'', ''s2'') 2 5000 ann_body ?db) =
              server_error refused"
    using T ann_checks(1-3) by blast
  have s2: "fst (signup stub_bcrypt (None, Some refused) (''s1'', ''s2'') 2 5000 ann_body ?db) =
              server_error refused"
    using T ann_checks f by blast
  show ?thesis by (intro conjI) (rule n g u c up l s1 s2)+
qed

text \<open>
  Claim C7 as stated fails: the 500 response of List to a refused connection carries the
  driver's own message.
\<close>

theorem store_fault_counterexample:
  "getAllGoals (Some refused) 7 \<lparr>users = [], goals = [run_goal]\<rparr> =
     (Response 500 (Some (JObj [(''message'', JStr ''Internal Server Error''),
                                (''error'', JStr ''connect ECONNREFUSED 127.0.0.1:27017'')])),
      \<lparr>users = [], goals = [run_goal]\<rparr>)"
  by (simp add: getAllGoals_def Goal_find_def server_error_def refused_def)

section \<open>Login failures\<close>

lemma ann_wrong_password:
  "\<not> comparePassword stub_bcrypt ann (text_of (body_password (ann_body\<lparr>body_password := Some ''password2''\<rparr>)))"
  by code_simp

lemma ann_found:
  "find (\<lambda>u. username u = js_trim (text_of (body_username (ann_body\<lparr>body_password := Some ''password2''\<rparr>))))
     (users \<lparr>users = [ann], goals = []\<rparr>) = Some ann"
  by code_simp

lemma wrong_body_checks:
  "\<not> bad_username (body_username (ann_body\<lparr>body_password := Some ''password2''\<rparr>))"
  "\<not> bad_password (body_password (ann_body\<lparr>body_password := Some ''password2''\<rparr>))"
  by code_simp+

text \<open>
  Claim C5. For a login request whose username and password are well formed, and a
  store call that goes through: the response when no user of that name is stored is the
  response when such a user is stored and the password does not verify, both being 401
  with the one-field body \<^verbatim>\<open>Invalid credentials\<close>.
\<close>

theorem login_failures_indistinguishable:
  assumes "\<not> bad_username (body_username b)" and "\<not> bad_password (body_password b)"
      and "find (\<lambda>u. username u = js_trim (text_of (body_username b))) (users db1) = None"
      and "find (\<lambda>u. username u = js_trim (text_of (body_username b))) (users db2) = Some u"
      and "\<not> comparePassword B u (text_of (body_password b))"
  shows "login B J secret None now b db1 = login B J secret None now b db2 \<and>
         login B J secret None now b db1 = message_response 401 ''Invalid credentials'' \<and>
         login B J secret None now b db2 = message_response 401 ''Invalid credentials''"
  using assms by (simp add: login_def User_findOne_def Let_def)

theorem login_failures_indistinguishable_witness:
  "login stub_bcrypt stub_jws (Some ''k'') None 5000 (ann_body\<lparr>body_password := Some ''password2''\<rparr>)
     \<lparr>users = [], goals = []\<rparr> =
   login stub_bcrypt stub_jws (Some ''k'') None 5000 (ann_body\<lparr>body_password := Some ''password2''\<rparr>)
     \<lparr>users = [ann], goals = []\<rparr> \<and>
   login stub_bcrypt stub_jws (Some ''k'') None 5000 (ann_body\<lparr>body_password := Some ''password2''\<rparr>)
     \<lparr>users = [ann], goals = []\<rparr> = message_response 401 ''Invalid credentials''"
proof -
  have n: "find (\<lambda>u. username u = js_trim (text_of (body_username (ann_body\<lparr>body_password := Some ''password2''\<rparr>))))
     (users \<lparr>users = [], goals = []\<rparr>) = None" by simp
  note T = login_failures_indistinguishable
             [OF wrong_body_checks n ann_found ann_wrong_password, of stub_jws "Some ''k''" 5000]
  show ?thesis using T by blast
qed

section \<open>The password hash in responses\<close>

lemma no_password_message: "\<not> response_has_key ''password'' (message_response st m)"
  by (simp add: response_has_key_def message_response_def)

lemma no_password_server_error: "\<not> response_has_key ''password'' (server_error e)"
  by (simp add: response_has_key_def server_error_def)

lemma no_password_signup: "\<not> response_has_key ''password'' (fst (signup B faults salts fresh now b db))"
proof -
  have c: "\<And>x. \<not> response_has_key ''password''
     (Response 201 (Some (JObj
                           [(''message'', JStr ''User created successfully''),
                            (''user'', JObj [(''id'', JId (user_id x)),
                                             (''username'', JStr (username x)),
                                             (''email'', JStr (email x))])])))"
    by (simp add: response_has_key_def)
  show ?thesis
    unfolding signup_def Let_def
    by (simp add: no_password_message no_password_server_error c
             split: sum.splits option.splits prod.splits)
qed

lemma no_password_login: "\<not> response_has_key ''password'' (login B J secret fault now b db)"
proof -
  have c: "\<And>x t. \<not> response_has_key ''password''
     (Response 200 (Some (JObj
                         [(''token'', JStr t),
                          (''user'', JObj [(''id'', JId (user_id x)),
                                           (''username'', JStr (username x))])])))"
    by (simp add: response_has_key_def)
  show ?thesis
    unfolding login_def Let_def
    by (simp add: no_password_message no_password_server_error c
             split: sum.splits option.splits)
qed

lemma no_password_toJSON: "\<not> has_key ''password'' (User_toJSON u)"
  by (simp add: User_toJSON_def User_toObject_def)

text \<open>
  Claim C4. No response of signup and no response of login, whatever its status, has a
  \<^verbatim>\<open>password\<close> key at any depth, and neither has the JSON rendering of a stored user;
  the plain object the rendering starts from does have one, which the transform of the
  schema deletes.
\<close>

theorem password_never_serialized:
  "\<not> response_has_key ''password'' (fst (signup B faults salts fresh now b db)) \<and>
   \<not> response_has_key ''password'' (login B J secret fault now' b' db') \<and>
   \<not> has_key ''password'' (User_toJSON u) \<and>
   has_key ''password'' (User_toObject u)"
  using no_password_signup no_password_login no_password_toJSON
  by (simp add: User_toObject_def)

section \<open>Further properties of the handlers\<close>

text \<open>Unique ids are an invariant of the goal collection: update and delete keep them
  unique, and so does create when the fresh id is not in use.\<close>

lemma update_keeps_ids:
  "map goal_id (goals (snd (updateGoal fault now gid b uid db))) = map goal_id (goals db)"
proof (cases "status (fst (updateGoal fault now gid b uid db)) = 200")
  case True
  obtain r db' where u: "updateGoal fault now gid b uid db = (r, db')" by (cases "updateGoal fault now gid b uid db")
  with True obtain j where r: "r = Response 200 j" by (cases r) auto
  from update_ok_cases[OF u[unfolded r]] show ?thesis
    unfolding u by (auto simp: set_fields_def)
next
  case False
  then show ?thesis by (simp add: update_not_ok_same)
qed

lemma delete_first_subset: "delete_first P xs = (r, ys) \<Longrightarrow> set ys \<subseteq> set xs"
proof (induction xs arbitrary: r ys)
  case Nil
  then show ?case by simp
next
  case (Cons x xs)
  show ?case
  proof (cases "P x")
    case True
    with Cons.prems show ?thesis by auto
  next
    case False
    obtain r' zs where d: "delete_first P xs = (r', zs)" by (cases "delete_first P xs")
    with False Cons.prems have "ys = x # zs" by simp
    with Cons.IH[OF d] show ?thesis by auto
  qed
qed

lemma delete_first_Some:
  "delete_first P xs = (Some y, ys) \<Longrightarrow>
   \<exists>as bs. xs = as @ y # bs \<and> P y \<and> (\<forall>a\<in>set as. \<not> P a) \<and> ys = as @ bs"
proof (induction xs arbitrary: ys)
  case Nil
  then show ?case by simp
next
  case (Cons x xs)
  show ?case
  proof (cases "P x")
    case True
    with Cons.prems have "y = x" "ys = xs" by auto
    with True show ?thesis by (intro exI[of _ "[]"] exI[of _ xs]) simp
  next
    case False
    with Cons.prems obtain zs where m: "delete_first P xs = (Some y, zs)" and ys: "ys = x # zs"
      by (auto split: prod.splits)
    from Cons.IH[OF m] obtain as bs where
      "xs = as @ y # bs" "P y" "\<forall>a\<in>set as. \<not> P a" "zs = as @ bs" by blast
    with False ys show ?thesis
      by (intro exI[of _ "x # as"] exI[of _ bs]) simp
  qed
qed

lemma deleteGoal_unfold:
  "deleteGoal fault gid uid db =
     (case fault of
        Some e \<Rightarrow> (server_error e, db)
      | None \<Rightarrow>
          (case delete_first (\<lambda>g. goal_id g = gid \<and> userId g = uid) (goals db) of
             (None, gs) \<Rightarrow> (message_response 404 ''Goal not found'', db\<lparr>goals := gs\<rparr>)
           | (Some g, gs) \<Rightarrow> (Response 204 None, db\<lparr>goals := gs\<rparr>)))"
  by (simp add: deleteGoal_def Goal_findOneAndDelete_def split: option.splits)

lemma delete_ok_cases:
  assumes "deleteGoal fault gid uid db = (Response 204 r, db')"
  shows "\<exists>as g bs. goals db = as @ g # bs \<and> goal_id g = gid \<and> userId g = uid \<and>
           db' = db\<lparr>goals := as @ bs\<rparr>"
proof -
  have st: "status (fst (deleteGoal fault gid uid db)) = 204" using assms by simp
  have f: "fault = None"
  proof (cases fault)
    case (Some e)
    then have "status (fst (deleteGoal fault gid uid db)) = 500"
      by (simp add: deleteGoal_unfold status_server_error)
    with st show ?thesis by simp
  qed simp
  obtain y ys where m: "delete_first (\<lambda>g. goal_id g = gid \<and> userId g = uid) (goals db) = (y, ys)"
    by (cases "delete_first (\<lambda>g. goal_id g = gid \<and> userId g = uid) (goals db)")
  have "y \<noteq> None"
  proof
    assume "y = None"
    then have "status (fst (deleteGoal fault gid uid db)) = 404"
      using f m by (simp add: deleteGoal_unfold status_message)
    with st show False by simp
  qed
  then obtain g where y: "y = Some g" by blast
  have "deleteGoal fault gid uid db = (Response 204 None, db\<lparr>goals := ys\<rparr>)"
    using f m y by (simp add: deleteGoal_unfold)
  with assms have d: "db' = db\<lparr>goals := ys\<rparr>" by simp
  from delete_first_Some[OF m[unfolded y]] d show ?thesis by blast
qed

lemma delete_first_distinct:
  "delete_first P xs = (r, ys) \<Longrightarrow> distinct (map f xs) \<Longrightarrow> distinct (map f ys)"
proof (induction xs arbitrary: r ys)
  case Nil
  then show ?case by simp
next
  case (Cons x xs)
  show ?case
  proof (cases "P x")
    case True
    with Cons.prems show ?thesis by auto
  next
    case False
    obtain r' zs where d: "delete_first P xs = (r', zs)" by (cases "delete_first P xs")
    with False Cons.prems have ys: "ys = x # zs" by simp
    from delete_first_subset[OF d] have "f ` set zs \<subseteq> f ` set xs" by auto
    with Cons.prems(2) Cons.IH[OF d] ys show ?thesis by auto
  qed
qed

lemma ids_stay_distinct:
  assumes "distinct (map goal_id (goals db))"
  shows "distinct (map goal_id (goals (snd (updateGoal fault now gid b uid db))))"
    and "distinct (map goal_id (goals (snd (deleteGoal fault gid uid db))))"
    and "fresh \<notin> goal_id ` set (goals db) \<Longrightarrow>
         distinct (map goal_id (goals (snd (createGoal fault fresh now b uid db))))"
proof -
  show "distinct (map goal_id (goals (snd (updateGoal fault now gid b uid db))))"
    using assms by (simp add: update_keeps_ids)
next
  obtain r ys where d: "delete_first (\<lambda>g. goal_id g = gid \<and> userId g = uid) (goals db) = (r, ys)"
    by (cases "delete_first (\<lambda>g. goal_id g = gid \<and> userId g = uid) (goals db)")
  from delete_first_distinct[OF d assms] have "distinct (map goal_id ys)" .
  then show "distinct (map goal_id (goals (snd (deleteGoal fault gid uid db))))"
    using assms d by (cases fault; cases r) (simp_all add: deleteGoal_unfold)
next
  assume "fresh \<notin> goal_id ` set (goals db)"
  moreover have "goal_id ((new_Goal fresh uid b)\<lparr>createdAt := now, updatedAt := now\<rparr>) = fresh"
    by (simp add: new_Goal_def set_fields_def)
  ultimately show "distinct (map goal_id (goals (snd (createGoal fault fresh now b uid db))))"
    using assms by (cases fault) (simp_all add: createGoal_unfold)
qed

text \<open>Idempotence of delete: when ids are unique, a delete that answered 204 is
  answered 404 the second time, and the first one removed a goal.\<close>

lemma delete_twice:
  assumes "distinct (map goal_id (goals db))"
      and "deleteGoal None gid uid db = (Response 204 r, db')"
  shows "deleteGoal None gid uid db' = (message_response 404 ''Goal not found'', db') \<and>
         length (goals db') < length (goals db)"
proof -
  from delete_ok_cases[OF assms(2)] obtain as g bs where
    g: "goals db = as @ g # bs" "goal_id g = gid" and d: "db' = db\<lparr>goals := as @ bs\<rparr>" by blast
  from assms(1) g have "gid \<notin> goal_id ` set (as @ bs)" by auto
  then have "\<forall>x\<in>set (goals db'). \<not> (goal_id x = gid \<and> userId x = uid)"
    unfolding d by auto
  from delete_unmatched[OF this, of None] show ?thesis using g d by simp
qed

text \<open>Round trip: a goal that create answered 201 with is in the list the same user is
  given next, with the id and the timestamps the server assigned.\<close>

lemma create_then_list:
  assumes "createGoal None fresh now b uid db = (Response 201 (Some j), db')"
  shows "\<exists>js. getAllGoals None uid db' = (Response 200 (Some (JArr js)), db') \<and> j \<in> set js \<and>
           field ''_id'' j = Some (JId fresh) \<and> field ''userId'' j = Some (JId uid) \<and>
           field ''createdAt'' j = Some (JDate now) \<and> field ''updatedAt'' j = Some (JDate now)"
proof -
  define g where "g = (new_Goal fresh uid b)\<lparr>createdAt := now, updatedAt := now\<rparr>"
  have st: "status (fst (createGoal None fresh now b uid db)) = 201" using assms by simp
  have e: "goal_errors (new_Goal fresh uid b) = []"
  proof (rule ccontr)
    assume "goal_errors (new_Goal fresh uid b) \<noteq> []"
    then have "status (fst (createGoal None fresh now b uid db)) = 400"
      by (simp add: createGoal_unfold status_invalid_input)
    with st show False by simp
  qed
  then have "createGoal None fresh now b uid db =
      (Response 201 (Some (Goal_toJSON g)), db\<lparr>goals := goals db @ [g]\<rparr>)"
    by (simp add: createGoal_unfold g_def)
  with assms have j: "j = Goal_toJSON g" and d: "db' = db\<lparr>goals := goals db @ [g]\<rparr>" by simp_all
  have u: "userId g = uid" "goal_id g = fresh" "createdAt g = now" "updatedAt g = now"
    by (simp_all add: g_def new_Goal_def set_fields_def)
  have g_in: "g \<in> set [x \<leftarrow> goals db'. userId x = uid]" using u d by simp
  have ne: "[x \<leftarrow> goals db'. userId x = uid] \<noteq> []" using g_in by (metis empty_iff list.set(1))
  have l: "getAllGoals None uid db' =
      (Response 200 (Some (JArr (map Goal_toJSON [x \<leftarrow> goals db'. userId x = uid]))), db')"
    using ne by (simp add: getAllGoals_def Goal_find_def)
  have "j \<in> set (map Goal_toJSON [x \<leftarrow> goals db'. userId x = uid])"
    using g_in unfolding j by auto
  moreover have "field ''_id'' j = Some (JId fresh)" "field ''userId'' j = Some (JId uid)"
    "field ''createdAt'' j = Some (JDate now)" "field ''updatedAt'' j = Some (JDate now)"
    unfolding j Goal_toJSON_eq using u by simp_all
  ultimately show ?thesis using l by blast
qed

text \<open>A signup that answered 201, sent again, is answered 409.\<close>

lemma signup_twice:
  assumes "signup B faults salts fresh now b db = (Response 201 r, db')"
  shows "signup B (None, f2) salts' fresh' now' b db' = (message_response 409 ''User already exists'', db')"
proof -
  define P :: "user \<Rightarrow> bool" where "P = (\<lambda>u. username u = js_trim (text_of (body_username b)) \<or>
                    email u = toLowerCase (text_of (body_email b)))"
  define u where "u = \<lparr>user_id = fresh, username = js_trim (text_of (body_username b)),
             email = toLowerCase (text_of (body_email b)),
             password = bcrypt_hash B (bcrypt_hash B (text_of (body_password b)) (fst salts)) (snd salts),
             userCreatedAt = now, userUpdatedAt = now\<rparr>"
  from signup_created[OF assms] have
    ok: "\<not> bad_username (body_username b)" "\<not> bad_password (body_password b)"
    and none: "find P (users db) = None" and d: "users db' = users db @ [u]"
    by (simp_all add: P_def u_def)
  have be: "\<not> bad_email (body_email b)"
  proof
    assume "bad_email (body_email b)"
    then have "status (fst (signup B faults salts fresh now b db)) = 400"
      using ok by (simp add: signup_def status_message)
    with assms show False by simp
  qed
  have "P u" by (simp add: P_def u_def)
  with none have "find P (users db') = Some u" unfolding d by (rule find_snoc_new)
  then show ?thesis using ok be
    by (simp add: signup_def Let_def User_findOne_def P_def)
qed

end
